theory Spec2Isabelle
  imports Complex_Main "HOL-Library.Sublist" "HOL-Library.Product_Lexorder"
begin

section \<open>Face identification: the recognize-face flow of the MCP server\<close>

text \<open>
  The development embeds \<^verbatim>\<open>PythonFaceRecognitionService\<close> (the current version of
  \<^verbatim>\<open>python-face-recognition.ts\<close>), the SQL function \<^verbatim>\<open>match_faces\<close> and the table
  \<^verbatim>\<open>faces\<close>. The class talks to three things outside the process: the Python
  detection service (\<^verbatim>\<open>/health\<close>, \<^verbatim>\<open>/detect\<close>), the Supabase store, and
  \<^verbatim>\<open>Math.random\<close>. Their answers are the fields of an environment record; the
  object's flag \<^verbatim>\<open>modelsLoaded\<close>, the rows of the table and a log of the external
  calls made so far are the state, passed in and returned.

  Two pieces of library code are taken from the environment as functions, since their
  arithmetic is not the repository's: the distance operator \<^verbatim>\<open><=>\<close> of pgvector and
  the base64 decoder of Node's \<^verbatim>\<open>Buffer.from\<close>. JavaScript numbers are real numbers
  here; a \<^verbatim>\<open>float8\<close> of the database is a real number or NaN. Strings are HOL
  strings, so a character is a code unit below 256; a byte of a buffer is a number below
  256. Several interfaces of the source share field names; the records below keep the
  source's names for the table row and the result and prefix the others.
\<close>

subsection \<open>JavaScript helpers\<close>

text \<open>
  \<^verbatim>\<open>String.prototype.trim\<close> strips white space and line terminators from both ends.
  Of these code units, the ones below 256 are TAB, LF, VT, FF, CR, SPACE and NBSP.
\<close>

definition isWhiteSpace :: "char \<Rightarrow> bool" where
  "isWhiteSpace c =
     (c \<in> set [CHR 0x09, CHR 0x0A, CHR 0x0B, CHR 0x0C, CHR 0x0D, CHR 0x20, CHR 0xA0])"

definition trim :: "string \<Rightarrow> string" where
  "trim s = rev (dropWhile isWhiteSpace (rev (dropWhile isWhiteSpace s)))"

text \<open>\<^verbatim>\<open>String.prototype.includes\<close>: the needle occurs as a contiguous block.\<close>

fun includes_str :: "string \<Rightarrow> string \<Rightarrow> bool" where
  "includes_str [] sub = (sub = [])"
| "includes_str (c # cs) sub = (prefix sub (c # cs) \<or> includes_str cs sub)"

text \<open>The decimal digits of a number, as a template string prints a status code.\<close>

function show_nat :: "nat \<Rightarrow> string" where
  "show_nat n = (if n < 10 then [''0123456789'' ! n]
                 else show_nat (n div 10) @ [''0123456789'' ! (n mod 10)])"
  by pat_completeness auto
termination
  by (relation "measure (\<lambda>n. n)") auto

text \<open>A string is truthy when it is neither \<^verbatim>\<open>undefined\<close> nor empty.\<close>

definition truthy :: "string option \<Rightarrow> bool" where
  "truthy v = (case v of None \<Rightarrow> False | Some s \<Rightarrow> s \<noteq> [])"

text \<open>\<^verbatim>\<open>response.ok\<close> of the Fetch API: a status from 200 to 299.\<close>

definition response_ok :: "nat \<Rightarrow> bool" where
  "response_ok status = (200 \<le> status \<and> status \<le> 299)"

text \<open>
  \<^verbatim>\<open>buffer.toString('base64')\<close>: the standard alphabet, three bytes to four characters,
  padded with \<^verbatim>\<open>=\<close>.
\<close>

definition base64_chars :: string where
  "base64_chars = ''ABCDEFGHIJKLMNOPQRSTUVWXYZabcdefghijklmnopqrstuvwxyz0123456789+/''"

fun toString_base64 :: "nat list \<Rightarrow> string" where
  "toString_base64 (a # b # c # rest) =
     [base64_chars ! (a div 4), base64_chars ! ((a mod 4) * 16 + b div 16),
      base64_chars ! ((b mod 16) * 4 + c div 64), base64_chars ! (c mod 64)]
     @ toString_base64 rest"
| "toString_base64 [a, b] =
     [base64_chars ! (a div 4), base64_chars ! ((a mod 4) * 16 + b div 16),
      base64_chars ! ((b mod 16) * 4), CHR ''='']"
| "toString_base64 [a] =
     [base64_chars ! (a div 4), base64_chars ! ((a mod 4) * 16), CHR ''='', CHR ''='']"
| "toString_base64 [] = []"

subsection \<open>Vectors and the \<^verbatim>\<open>float8\<close> values of the database\<close>

type_synonym embedding = "real list"

text \<open>
  A \<^verbatim>\<open>float8\<close>: a number or NaN (a cosine distance is never infinite). Subtraction
  yields NaN when an operand is NaN. The numbers are real numbers and their subtraction
  is exact, where the database rounds to a double.
\<close>

datatype float8 = Finite real | NaN

definition float8_minus :: "float8 \<Rightarrow> float8 \<Rightarrow> float8" where
  "float8_minus a b =
     (case a of NaN \<Rightarrow> NaN
      | Finite x \<Rightarrow> (case b of NaN \<Rightarrow> NaN | Finite y \<Rightarrow> Finite (x - y)))"

text \<open>
  The comparison \<^verbatim>\<open>>\<close> of PostgreSQL on \<^verbatim>\<open>float8\<close>: NaN is equal to itself and
  greater than every number.
\<close>

definition float8_gt :: "float8 \<Rightarrow> float8 \<Rightarrow> bool" where
  "float8_gt a b =
     (case a of
        NaN \<Rightarrow> (case b of NaN \<Rightarrow> False | Finite y \<Rightarrow> True)
      | Finite x \<Rightarrow> (case b of NaN \<Rightarrow> False | Finite y \<Rightarrow> y < x))"

text \<open>
  The place of a nullable \<^verbatim>\<open>float8\<close> in an ascending \<^verbatim>\<open>ORDER BY\<close>: the numbers
  by their value, then NaN, then NULL. Pairs are compared lexicographically.
\<close>

definition ascending_key :: "float8 option \<Rightarrow> nat \<times> real" where
  "ascending_key v =
     (case v of Some (Finite x) \<Rightarrow> (0, x) | Some NaN \<Rightarrow> (1, 0) | None \<Rightarrow> (2, 0))"

subsection \<open>The table \<^verbatim>\<open>faces\<close>\<close>

text \<open>
  A row of \<^verbatim>\<open>faces\<close> (interface \<^verbatim>\<open>FaceRecord\<close>); \<open>id'\<close> is the column
  \<^verbatim>\<open>id\<close>. Nullable columns the interface marks optional are options.
\<close>

record FaceRecord =
  id' :: nat
  name :: string
  relationship :: string
  color :: string
  face_embedding :: "embedding option"
  image_url :: "string option"
  created_at :: nat
  updated_at :: nat
  user_id :: "nat option"

text \<open>Interface \<^verbatim>\<open>FaceInsert\<close>: the fields of a row the caller may give.\<close>

record FaceInsert =
  new_name :: string
  new_relationship :: string
  new_color :: "string option"
  new_face_embedding :: "embedding option"
  new_image_url :: "string option"
  new_user_id :: "nat option"

datatype db_error = DimensionMismatch | ValueTooLong | UniqueViolation

text \<open>
  Storing a string in a \<^verbatim>\<open>VARCHAR(n)\<close> column: a longer value is an error, unless
  the excess is all spaces, which PostgreSQL cuts off.
\<close>

definition varchar :: "nat \<Rightarrow> string \<Rightarrow> db_error + string" where
  "varchar n s =
     (if length s \<le> n then Inr s
      else if list_all (\<lambda>c. c = CHR '' '') (drop n s) then Inr (take n s)
      else Inl ValueTooLong)"

text \<open>
  A \<^verbatim>\<open>UNIQUE\<close> constraint treats NULLs as distinct: two rows collide on
  \<^verbatim>\<open>(name, user_id)\<close> only when both user ids are present and equal.
\<close>

definition unique_name_per_user :: "FaceRecord list \<Rightarrow> string \<Rightarrow> nat option \<Rightarrow> bool" where
  "unique_name_per_user rows n u =
     (case u of None \<Rightarrow> True
      | Some i \<Rightarrow> list_all (\<lambda>r. \<not> (name r = n \<and> user_id r = Some i)) rows)"

text \<open>
  \<^verbatim>\<open>INSERT INTO faces\<close> of one \<^verbatim>\<open>FaceInsert\<close>, returning the stored row
  (\<^verbatim>\<open>.insert([faceData]).select().single()\<close>). The arguments \<open>uid\<close> and \<open>t\<close> are
  what \<^verbatim>\<open>gen_random_uuid()\<close> and \<^verbatim>\<open>NOW()\<close> yield. The checks are those of the
  schema: the primary key, the two \<^verbatim>\<open>VARCHAR(255)\<close> columns, \<^verbatim>\<open>VARCHAR(50)\<close> with
  default \<^verbatim>\<open>'blue'\<close> for the color, \<^verbatim>\<open>VECTOR(512)\<close> for the embedding, and
  \<^verbatim>\<open>unique_name_per_user\<close>.
\<close>

definition insert_faces :: "nat \<Rightarrow> nat \<Rightarrow> FaceRecord list \<Rightarrow> FaceInsert \<Rightarrow> db_error + FaceRecord" where
  "insert_faces uid t rows d =
     (case varchar 255 (new_name d) of Inl e \<Rightarrow> Inl e | Inr n \<Rightarrow>
      case varchar 255 (new_relationship d) of Inl e \<Rightarrow> Inl e | Inr rel \<Rightarrow>
      case varchar 50 (case new_color d of None \<Rightarrow> ''blue'' | Some c \<Rightarrow> c) of Inl e \<Rightarrow> Inl e | Inr col \<Rightarrow>
      if (case new_face_embedding d of None \<Rightarrow> False | Some v \<Rightarrow> length v \<noteq> 512)
        then Inl DimensionMismatch
      else if uid \<in> set (map id' rows) then Inl UniqueViolation
      else if \<not> unique_name_per_user rows n (new_user_id d) then Inl UniqueViolation
      else Inr \<lparr> id' = uid, name = n, relationship = rel, color = col,
                 face_embedding = new_face_embedding d, image_url = new_image_url d,
                 created_at = t, updated_at = t, user_id = new_user_id d \<rparr>)"

subsection \<open>The SQL function \<^verbatim>\<open>match_faces\<close>\<close>

text \<open>
  A row of the table \<^verbatim>\<open>match_faces\<close> returns; the column \<^verbatim>\<open>similarity\<close> is NULL
  where the embedding is.
\<close>

record face_match =
  match_id :: nat
  match_name :: string
  match_relationship :: string
  match_color :: string
  match_face_embedding :: "embedding option"
  similarity :: "float8 option"

text \<open>
  \<^verbatim>\<open>faces.face_embedding <=> query_embedding\<close> for one row, \<open>op\<close> being the
  operator of pgvector: NULL (\<open>None\<close>) for a NULL embedding, else what the operator
  yields, which is NaN where a vector has norm zero.
\<close>

definition row_distance ::
  "(embedding \<Rightarrow> embedding \<Rightarrow> float8) \<Rightarrow> embedding \<Rightarrow> FaceRecord \<Rightarrow> float8 option" where
  "row_distance op q r = map_option (\<lambda>v. op v q) (face_embedding r)"

text \<open>The selected column \<^verbatim>\<open>1 - (faces.face_embedding <=> query_embedding)\<close>.\<close>

definition row_similarity ::
  "(embedding \<Rightarrow> embedding \<Rightarrow> float8) \<Rightarrow> embedding \<Rightarrow> FaceRecord \<Rightarrow> float8 option" where
  "row_similarity op q r = map_option (float8_minus (Finite 1)) (row_distance op q r)"

text \<open>
  The \<^verbatim>\<open>WHERE\<close> clause: \<^verbatim>\<open>1 - (...) > match_threshold\<close>. A NULL on the left does
  not select the row; a NaN on the left does, being greater than every number.
\<close>

definition above_threshold ::
  "(embedding \<Rightarrow> embedding \<Rightarrow> float8) \<Rightarrow> embedding \<Rightarrow> real \<Rightarrow> FaceRecord \<Rightarrow> bool" where
  "above_threshold op q thr r =
     (case row_similarity op q r of None \<Rightarrow> False | Some s \<Rightarrow> float8_gt s (Finite thr))"

text \<open>The sort key of \<^verbatim>\<open>ORDER BY faces.face_embedding <=> query_embedding\<close>.\<close>

definition order_key ::
  "(embedding \<Rightarrow> embedding \<Rightarrow> float8) \<Rightarrow> embedding \<Rightarrow> FaceRecord \<Rightarrow> nat \<times> real" where
  "order_key op q r = ascending_key (row_distance op q r)"

definition to_match ::
  "(embedding \<Rightarrow> embedding \<Rightarrow> float8) \<Rightarrow> embedding \<Rightarrow> FaceRecord \<Rightarrow> face_match" where
  "to_match op q r =
     \<lparr> match_id = id' r, match_name = name r, match_relationship = relationship r,
       match_color = color r, match_face_embedding = face_embedding r,
       similarity = row_similarity op q r \<rparr>"

text \<open>
  \<^verbatim>\<open>SELECT ... FROM faces WHERE ... ORDER BY ... LIMIT match_count\<close>. The query
  vector is a \<^verbatim>\<open>vector(512)\<close>, and comparing vectors of different dimensions is an
  error. PostgreSQL leaves the order of rows at equal distance open; here they keep the
  order of the table (the sort is stable).
\<close>

definition match_faces ::
  "(embedding \<Rightarrow> embedding \<Rightarrow> float8) \<Rightarrow> FaceRecord list \<Rightarrow> embedding \<Rightarrow> real \<Rightarrow> nat
     \<Rightarrow> db_error + face_match list" where
  "match_faces op rows query_embedding match_threshold match_count =
     (if length query_embedding \<noteq> 512
         \<or> \<not> list_all (\<lambda>r. case face_embedding r of None \<Rightarrow> True
                                 | Some v \<Rightarrow> length v = length query_embedding) rows
      then Inl DimensionMismatch
      else Inr (take match_count
             (map (to_match op query_embedding)
               (sort_key (order_key op query_embedding)
                 (filter (above_threshold op query_embedding match_threshold) rows)))))"

text \<open>
  The column type \<^verbatim>\<open>VECTOR(512)\<close> keeps every stored embedding at 512 dimensions:
  an invariant of the table, which the query relies on.
\<close>

definition embeddings_512 :: "FaceRecord list \<Rightarrow> bool" where
  "embeddings_512 rows =
     list_all (\<lambda>r. case face_embedding r of None \<Rightarrow> True | Some v \<Rightarrow> length v = 512) rows"

subsection \<open>The detection service\<close>

text \<open>
  How a \<^verbatim>\<open>fetch\<close> of \<^verbatim>\<open>/health\<close> ends: aborted by the five-second timer
  (an \<^verbatim>\<open>AbortError\<close>), rejected with an error carrying a message, or answered with
  a status and its text.
\<close>

datatype fetch_result = FetchAborted | FetchFailed string | FetchResponse nat string

text \<open>
  One element of \<^verbatim>\<open>faces\<close> in the answer of \<^verbatim>\<open>/detect\<close>; the location is
  (top, right, bottom, left).
\<close>

record PythonFace =
  face_id :: string
  encoding :: embedding
  location :: "real \<times> real \<times> real \<times> real"
  py_confidence :: real
  py_name :: string
  py_relationship :: string
  py_color :: string

text \<open>Interface \<^verbatim>\<open>PythonFaceDetectionResponse\<close>.\<close>

record PythonFaceDetectionResponse =
  py_success :: bool
  py_faces :: "PythonFace list"
  py_message :: string
  py_error :: "string option"

text \<open>
  How the \<^verbatim>\<open>POST\<close> to \<^verbatim>\<open>/detect\<close> ends: the \<^verbatim>\<open>fetch\<close> is rejected, or
  it is answered with a status and a body (\<open>None\<close> when the body is not the JSON
  expected, so that \<^verbatim>\<open>response.json()\<close> rejects).
\<close>

datatype detect_result = DetectFailed | DetectResponse nat "PythonFaceDetectionResponse option"

text \<open>Interface \<^verbatim>\<open>FaceDetection\<close>.\<close>

record FaceDetection =
  det_name :: string
  det_relationship :: string
  det_color :: string
  embedding :: embedding
  det_confidence :: real

subsection \<open>Environment, state and result\<close>

text \<open>
  What the outside world answers during one call: the health check, the detector (a
  function of the base64 text sent to it), whether the store fails the \<^verbatim>\<open>rpc\<close> or
  the \<^verbatim>\<open>insert\<close> for a reason of its own (unreachable, a missing function, a
  rejected key), the value of \<^verbatim>\<open>Math.random()\<close>, the fresh uuid and the clock of the
  database. With them come the two library functions: \<open>vector_distance\<close> is the
  operator \<^verbatim>\<open><=>\<close> of the store's pgvector, and \<open>buffer_from\<close> is
  \<^verbatim>\<open>Buffer.from(text, 'base64')\<close>, the bytes Node's lenient decoder reads from a text.
\<close>

record env =
  health :: fetch_result
  detect :: "string \<Rightarrow> detect_result"
  rpc_fails :: bool
  insert_fails :: bool
  math_random :: real
  uuid :: nat
  now :: nat
  vector_distance :: "embedding \<Rightarrow> embedding \<Rightarrow> float8"
  buffer_from :: "string \<Rightarrow> nat list"

text \<open>The external calls, as logged in the state in the order they are made.\<close>

datatype call =
    Health
  | Detect string
  | MatchFaces embedding real nat
  | InsertFace FaceInsert

record state =
  modelsLoaded :: bool
  faces :: "FaceRecord list"
  calls :: "call list"

text \<open>
  Interface \<^verbatim>\<open>FaceRecognitionResult\<close>; \<open>res_relationship\<close> and \<open>res_color\<close> are
  its fields \<^verbatim>\<open>relationship\<close> and \<^verbatim>\<open>color\<close>. An optional field that is not set
  is \<open>None\<close>.
\<close>

record FaceRecognitionResult =
  success :: bool
  person :: "string option"
  res_relationship :: "string option"
  confidence :: "real option"
  res_color :: "string option"
  message :: string
  error :: "string option"

definition log_call :: "call \<Rightarrow> state \<Rightarrow> state" where
  "log_call c s = s\<lparr>calls := calls s @ [c]\<rparr>"

subsection \<open>\<^verbatim>\<open>PythonFaceRecognitionService\<close>\<close>

text \<open>
  \<^verbatim>\<open>initialize\<close> returns the message of the error it throws, if it throws, and the
  new state. A status that is not ok throws inside the \<^verbatim>\<open>try\<close>, so the handler
  wraps its message like that of a rejected \<^verbatim>\<open>fetch\<close>.
\<close>

definition initialize :: "env \<Rightarrow> state \<Rightarrow> string option \<times> state" where
  "initialize e s =
     (if modelsLoaded s then (None, s)
      else let s1 = log_call Health s in
        case health e of
          FetchResponse status statusText \<Rightarrow>
            if response_ok status then (None, s1\<lparr>modelsLoaded := True\<rparr>)
            else (Some (''Python face recognition service could not be initialized: ''
                        @ ''Python service not available: '' @ show_nat status @ '' '' @ statusText), s1)
        | FetchAborted \<Rightarrow>
            (Some ''Python face recognition service connection timeout - is the service running?'', s1)
        | FetchFailed msg \<Rightarrow>
            (Some (''Python face recognition service could not be initialized: '' @ msg), s1))"

text \<open>
  \<^verbatim>\<open>detectFaces\<close> gets a buffer and sends its base64 text. Every failure
  (initialisation, transport, status, a body with \<^verbatim>\<open>success: false\<close>) ends in the
  empty list.
\<close>

definition to_detection :: "PythonFace \<Rightarrow> FaceDetection" where
  "to_detection face =
     \<lparr> det_name = py_name face, det_relationship = py_relationship face,
       det_color = py_color face, embedding = encoding face,
       det_confidence = py_confidence face \<rparr>"

definition detectFaces :: "env \<Rightarrow> state \<Rightarrow> nat list \<Rightarrow> FaceDetection list \<times> state" where
  "detectFaces e s imageBuffer =
     (case (if \<not> modelsLoaded s then initialize e s else (None, s)) of
        (Some err, s1) \<Rightarrow> ([], s1)
      | (None, s1) \<Rightarrow>
          let base64Image = toString_base64 imageBuffer;
              s2 = log_call (Detect base64Image) s1 in
          case detect e base64Image of
            DetectFailed \<Rightarrow> ([], s2)
          | DetectResponse status body \<Rightarrow>
              if \<not> response_ok status then ([], s2)
              else case body of
                None \<Rightarrow> ([], s2)
              | Some result \<Rightarrow>
                  if \<not> py_success result then ([], s2)
                  else (map to_detection (py_faces result), s2))"

text \<open>
  \<^verbatim>\<open>identifyFace\<close>: the \<^verbatim>\<open>rpc\<close> with threshold 0.7 and count 1. An error of the
  store is logged to the console and becomes \<^verbatim>\<open>null\<close>, like an empty answer.
\<close>

definition identifyFace :: "env \<Rightarrow> state \<Rightarrow> embedding \<Rightarrow> face_match option \<times> state" where
  "identifyFace e s emb =
     (let s1 = log_call (MatchFaces emb (7 / 10) 1) s in
      if rpc_fails e then (None, s1)
      else case match_faces (vector_distance e) (faces s) emb (7 / 10) 1 of
        Inl err \<Rightarrow> (None, s1)
      | Inr data \<Rightarrow> (case data of [] \<Rightarrow> (None, s1) | m # _ \<Rightarrow> (Some m, s1)))"

text \<open>\<^verbatim>\<open>addFace\<close>: the insert; an error of the store becomes \<^verbatim>\<open>null\<close>.\<close>

definition addFace :: "env \<Rightarrow> state \<Rightarrow> FaceInsert \<Rightarrow> FaceRecord option \<times> state" where
  "addFace e s faceData =
     (let s1 = log_call (InsertFace faceData) s in
      if insert_fails e then (None, s1)
      else case insert_faces (uuid e) (now e) (faces s) faceData of
        Inl err \<Rightarrow> (None, s1)
      | Inr row \<Rightarrow> (Some row, s1\<lparr>faces := faces s @ [row]\<rparr>))"

definition hexColors :: "string list" where
  "hexColors = [''#FF6B6B'', ''#4ECDC4'', ''#45B7D1'', ''#96CEB4'', ''#FFEAA7'', ''#DDA0DD'',
                ''#FFB6C1'', ''#98D8C8'', ''#F7DC6F'', ''#BB8FCE'', ''#85C1E9'', ''#F8C471'']"

text \<open>
  \<^verbatim>\<open>getRandomColor\<close>, as a function of the value \<open>r\<close> of \<^verbatim>\<open>Math.random()\<close>.
  An index outside the array reads \<^verbatim>\<open>undefined\<close>, which is \<open>None\<close>.
\<close>

definition getRandomColor :: "real \<Rightarrow> string option" where
  "getRandomColor r =
     (let i = \<lfloor>r * real (length hexColors)\<rfloor> in
      if 0 \<le> i \<and> i < int (length hexColors) then Some (hexColors ! nat i) else None)"

text \<open>
  \<^verbatim>\<open>recognizeFace\<close>. Only \<^verbatim>\<open>initialize\<close> can throw inside the \<^verbatim>\<open>try\<close>; the
  handler turns the error into a result.
\<close>

definition recognizeFace ::
  "env \<Rightarrow> state \<Rightarrow> string \<Rightarrow> string option \<Rightarrow> string option \<Rightarrow> FaceRecognitionResult \<times> state" where
  "recognizeFace e s base64Image personName personRelationship =
     (case (if \<not> modelsLoaded s then initialize e s else (None, s)) of
        (Some msg, s1) \<Rightarrow>
          (\<lparr> success = False, person = None, res_relationship = None, confidence = None,
             res_color = None,
             message = (if includes_str msg ''fetch''
                        then ''Cannot connect to Python face recognition service - is it running?''
                        else msg),
             error = Some msg \<rparr>, s1)
      | (None, s1) \<Rightarrow>
          if trim base64Image = [] then
            (\<lparr> success = False, person = None, res_relationship = None, confidence = None,
               res_color = None, message = ''No image data provided'',
               error = Some ''Empty image data'' \<rparr>, s1)
          else
            case detectFaces e s1 (buffer_from e base64Image) of
              ([], s2) \<Rightarrow>
                (\<lparr> success = False, person = None, res_relationship = None, confidence = None,
                   res_color = None, message = ''No faces detected in the image'',
                   error = Some ''No faces found'' \<rparr>, s2)
            | (face # _, s2) \<Rightarrow>
                (case identifyFace e s2 (embedding face) of
                   (Some existingPerson, s3) \<Rightarrow>
                     (\<lparr> success = True, person = Some (match_name existingPerson),
                        res_relationship = Some (match_relationship existingPerson),
                        confidence = Some (8 / 10),
                        res_color = Some (match_color existingPerson),
                        message = ''Found existing person: '' @ match_name existingPerson
                                  @ '' ('' @ match_relationship existingPerson @ '')'',
                        error = None \<rparr>, s3)
                 | (None, s3) \<Rightarrow>
                     let unmatched =
                       \<lparr> success = False, person = Some ''Unknown'',
                         res_relationship = Some ''Unknown'',
                         confidence = Some (det_confidence face), res_color = None,
                         message = ''Face detected but not recognized. Provide name and relationship to add new person.'',
                         error = None \<rparr>
                     in if truthy personName \<and> truthy personRelationship then
                       (case addFace e s3
                               \<lparr> new_name = the personName,
                                 new_relationship = the personRelationship,
                                 new_color = getRandomColor (math_random e),
                                 new_face_embedding = Some (embedding face),
                                 new_image_url = None, new_user_id = None \<rparr> of
                          (Some newFace, s4) \<Rightarrow>
                            (\<lparr> success = True, person = Some (name newFace),
                               res_relationship = Some (relationship newFace),
                               confidence = Some 1,
                               res_color = Some (color newFace),
                               message = ''Added new person: '' @ name newFace
                                         @ '' ('' @ relationship newFace @ '')'',
                               error = None \<rparr>, s4)
                        | (None, s4) \<Rightarrow> (unmatched, s4))
                     else (unmatched, s3)))"

subsection \<open>The response of the tool\<close>

text \<open>
  \<^verbatim>\<open>handleFaceRecognition\<close> answers with \<^verbatim>\<open>JSON.stringify(recognitionResult)\<close>:
  the fields that are set, in the order of the object literal.
\<close>

datatype json = JBool bool | JNumber real | JString string

definition optional_field :: "string \<Rightarrow> ('a \<Rightarrow> json) \<Rightarrow> 'a option \<Rightarrow> (string \<times> json) list" where
  "optional_field k f v = (case v of None \<Rightarrow> [] | Some x \<Rightarrow> [(k, f x)])"

definition stringify :: "FaceRecognitionResult \<Rightarrow> (string \<times> json) list" where
  "stringify r =
     [(''success'', JBool (success r))]
     @ optional_field ''person'' JString (person r)
     @ optional_field ''relationship'' JString (res_relationship r)
     @ optional_field ''confidence'' JNumber (confidence r)
     @ optional_field ''color'' JString (res_color r)
     @ [(''message'', JString (message r))]
     @ optional_field ''error'' JString (error r)"

subsection \<open>Example data\<close>

text \<open>
  Concrete inputs for the instances below: short vectors padded with zeros to 512
  dimensions, a detection service that is up and reports one face per given vector, a
  store that answers, and rows without a user id. The distance operator of the example
  store is the cosine distance in exact arithmetic, NaN where a vector has norm zero;
  its decoder reads standard base64, skipping what is not in the alphabet and stopping
  at the padding.
\<close>

definition inner_product :: "embedding \<Rightarrow> embedding \<Rightarrow> real" where
  "inner_product a b = sum_list (map2 (*) a b)"

definition cosine_distance :: "embedding \<Rightarrow> embedding \<Rightarrow> float8" where
  "cosine_distance a b =
     (if inner_product a a = 0 \<or> inner_product b b = 0 then NaN
      else Finite (1 - inner_product a b / sqrt (inner_product a a * inner_product b b)))"

fun base64_index :: "nat \<Rightarrow> char \<Rightarrow> string \<Rightarrow> nat option" where
  "base64_index i c [] = None"
| "base64_index i c (x # xs) = (if c = x then Some i else base64_index (i + 1) c xs)"

fun base64_sextets :: "string \<Rightarrow> nat list" where
  "base64_sextets [] = []"
| "base64_sextets (c # cs) =
     (if c = CHR ''='' then []
      else case base64_index 0 c base64_chars of
        None \<Rightarrow> base64_sextets cs
      | Some v \<Rightarrow> v # base64_sextets cs)"

fun base64_bytes :: "nat list \<Rightarrow> nat list" where
  "base64_bytes (a # b # c # d # rest) =
     [a * 4 + b div 16, (b mod 16) * 16 + c div 4, (c mod 4) * 64 + d] @ base64_bytes rest"
| "base64_bytes [a, b, c] = [a * 4 + b div 16, (b mod 16) * 16 + c div 4]"
| "base64_bytes [a, b] = [a * 4 + b div 16]"
| "base64_bytes [a] = []"
| "base64_bytes [] = []"

definition pad :: "real list \<Rightarrow> embedding" where
  "pad xs = xs @ replicate (512 - length xs) 0"

definition example_face :: "real list \<Rightarrow> PythonFace" where
  "example_face v =
     \<lparr> face_id = ''face_0'', encoding = pad v, location = (0, 100, 100, 0),
       py_confidence = 9 / 10, py_name = ''Unknown'', py_relationship = ''Unknown'',
       py_color = ''blue'' \<rparr>"

definition example_env :: "real list list \<Rightarrow> env" where
  "example_env vs =
     \<lparr> health = FetchResponse 200 ''OK'',
       detect = (\<lambda>img. DetectResponse 200
                  (Some \<lparr> py_success = True, py_faces = map example_face vs,
                          py_message = ''ok'', py_error = None \<rparr>)),
       rpc_fails = False, insert_fails = False, math_random = 1 / 2, uuid = 7, now = 1000,
       vector_distance = cosine_distance,
       buffer_from = (\<lambda>text. base64_bytes (base64_sextets text)) \<rparr>"

definition example_row :: "nat \<Rightarrow> string \<Rightarrow> string \<Rightarrow> real list \<Rightarrow> FaceRecord" where
  "example_row i n rel v =
     \<lparr> id' = i, name = n, relationship = rel, color = ''#4ECDC4'',
       face_embedding = Some (pad v), image_url = None, created_at = 10, updated_at = 10,
       user_id = None \<rparr>"

definition example_state :: "FaceRecord list \<Rightarrow> state" where
  "example_state rows = \<lparr> modelsLoaded = False, faces = rows, calls = [] \<rparr>"

section \<open>Properties\<close>

subsection \<open>The steps of \<^verbatim>\<open>recognizeFace\<close>\<close>

lemma initialize_None_loaded: "initialize e s = (None, s1) \<Longrightarrow> modelsLoaded s1"
  by (auto simp: initialize_def Let_def split: if_splits fetch_result.splits)

lemma initialize_faces: "faces (snd (initialize e s)) = faces s"
  by (auto simp: initialize_def Let_def log_call_def split: fetch_result.splits)

lemma initialize_guard:
  "(if \<not> modelsLoaded s then initialize e s else (None, s)) = initialize e s"
  by (simp add: initialize_def)

lemma initialize_calls:
  "calls (snd (initialize e s)) = (if modelsLoaded s then calls s else calls s @ [Health])"
  by (auto simp: initialize_def Let_def log_call_def split: fetch_result.splits)

lemma detectFaces_after_init:
  assumes "initialize e s = (None, s1)"
  shows "detectFaces e s1 b = detectFaces e s b"
proof (cases "modelsLoaded s")
  case True
  with assms show ?thesis by (simp add: initialize_def)
next
  case False
  from assms have "modelsLoaded s1" by (rule initialize_None_loaded)
  with False assms show ?thesis by (simp add: detectFaces_def)
qed

lemma detectFaces_nonempty_init:
  assumes "detectFaces e s b = (f # fs, s2)"
  shows "\<exists>s1. initialize e s = (None, s1) \<and> detectFaces e s1 b = (f # fs, s2)"
proof -
  obtain x s1 where i: "initialize e s = (x, s1)" by (cases "initialize e s")
  show ?thesis
  proof (cases x)
    case None
    with i assms show ?thesis by (simp add: detectFaces_after_init)
  next
    case (Some m)
    with assms i show ?thesis by (simp add: detectFaces_def initialize_guard)
  qed
qed

lemma recognizeFace_detected:
  assumes "trim img \<noteq> []" and "detectFaces e s (buffer_from e img) = (f # fs, s2)"
  shows "recognizeFace e s img n r =
    (case identifyFace e s2 (embedding f) of
                   (Some existingPerson, s3) \<Rightarrow>
                     (\<lparr> success = True, person = Some (match_name existingPerson),
                        res_relationship = Some (match_relationship existingPerson),
                        confidence = Some (8 / 10),
                        res_color = Some (match_color existingPerson),
                        message = ''Found existing person: '' @ match_name existingPerson
                                  @ '' ('' @ match_relationship existingPerson @ '')'',
                        error = None \<rparr>, s3)
                 | (None, s3) \<Rightarrow>
                     let unmatched =
                       \<lparr> success = False, person = Some ''Unknown'',
                         res_relationship = Some ''Unknown'',
                         confidence = Some (det_confidence f), res_color = None,
                         message = ''Face detected but not recognized. Provide name and relationship to add new person.'',
                         error = None \<rparr>
                     in if truthy n \<and> truthy r then
                       (case addFace e s3
                               \<lparr> new_name = the n,
                                 new_relationship = the r,
                                 new_color = getRandomColor (math_random e),
                                 new_face_embedding = Some (embedding f),
                                 new_image_url = None, new_user_id = None \<rparr> of
                          (Some newFace, s4) \<Rightarrow>
                            (\<lparr> success = True, person = Some (name newFace),
                               res_relationship = Some (relationship newFace),
                               confidence = Some 1,
                               res_color = Some (color newFace),
                               message = ''Added new person: '' @ name newFace
                                         @ '' ('' @ relationship newFace @ '')'',
                               error = None \<rparr>, s4)
                        | (None, s4) \<Rightarrow> (unmatched, s4))
                     else (unmatched, s3))"
proof -
  from detectFaces_nonempty_init[OF assms(2)] obtain s1 where
    i: "initialize e s = (None, s1)"
    and d: "detectFaces e s1 (buffer_from e img) = (f # fs, s2)" by blast
  show ?thesis
    unfolding recognizeFace_def initialize_guard unfolding i using assms(1) d by simp
qed

lemma detectFaces_faces: "faces (snd (detectFaces e s b)) = faces s"
  by (auto simp: detectFaces_def initialize_def Let_def log_call_def
      split: fetch_result.splits detect_result.splits option.splits)

lemma identifyFace_faces: "faces (snd (identifyFace e s q)) = faces s"
  by (auto simp: identifyFace_def Let_def log_call_def split: sum.splits list.splits)

lemma detectFaces_facesD: "detectFaces e s b = (x, s1) \<Longrightarrow> faces s1 = faces s"
  using detectFaces_faces[of e s b] by simp

lemma identifyFace_facesD: "identifyFace e s q = (x, s1) \<Longrightarrow> faces s1 = faces s"
  using identifyFace_faces[of e s q] by simp

lemma identifyFace_calls:
  "calls (snd (identifyFace e s q)) = calls s @ [MatchFaces q (7 / 10) 1]"
  by (auto simp: identifyFace_def Let_def log_call_def split: sum.splits list.splits)

lemma identifyFace_fails: "rpc_fails e \<Longrightarrow> fst (identifyFace e s q) = None"
  by (simp add: identifyFace_def Let_def)

lemma identifyFace_same_store:
  "faces s' = faces s \<Longrightarrow> rpc_fails e' = rpc_fails e \<Longrightarrow> vector_distance e' = vector_distance e \<Longrightarrow>
     fst (identifyFace e' s' q) = fst (identifyFace e s q)"
  by (simp add: identifyFace_def Let_def split: sum.splits list.splits)

lemma addFace_calls: "calls (snd (addFace e s d)) = calls s @ [InsertFace d]"
  by (auto simp: addFace_def Let_def log_call_def split: sum.splits)

lemma addFace_None_faces: "fst (addFace e s d) = None \<Longrightarrow> faces (snd (addFace e s d)) = faces s"
  by (auto simp: addFace_def Let_def log_call_def split: sum.splits if_splits)

lemma addFace_fails: "insert_fails e \<Longrightarrow> fst (addFace e s d) = None"
  by (simp add: addFace_def Let_def)

lemma addFace_SomeD:
  "addFace e s d = (Some row, s') \<Longrightarrow>
     insert_faces (uuid e) (now e) (faces s) d = Inr row \<and> faces s' = faces s @ [row]"
  by (auto simp: addFace_def Let_def log_call_def split: if_splits sum.splits)

lemma initialize_detect_irrelevant: "initialize (e\<lparr>detect := d\<rparr>) s = initialize e s"
  by (simp add: initialize_def)

lemma detectFaces_state_detect_irrelevant:
  "snd (detectFaces (e\<lparr>detect := d\<rparr>) s b) = snd (detectFaces e s b)"
  by (auto simp: detectFaces_def initialize_detect_irrelevant Let_def
      split: prod.splits option.splits detect_result.splits)

lemma identifyFace_detect_irrelevant: "identifyFace (e\<lparr>detect := d\<rparr>) s q = identifyFace e s q"
  by (simp add: identifyFace_def Let_def)

lemma addFace_detect_irrelevant: "addFace (e\<lparr>detect := d\<rparr>) s x = addFace e s x"
  by (simp add: addFace_def Let_def)

lemma dropWhile_Nil_iff: "(dropWhile P xs = []) = (\<forall>x\<in>set xs. P x)"
  by (induction xs) auto

lemma trim_empty_iff: "(trim s = []) = (\<forall>c\<in>set s. isWhiteSpace c)"
proof
  assume "trim s = []"
  then have "\<forall>x\<in>set (dropWhile isWhiteSpace s). isWhiteSpace x"
    by (simp add: trim_def)
  then have "dropWhile isWhiteSpace s = []"
    by (metis hd_dropWhile list.set_sel(1))
  then show "\<forall>c\<in>set s. isWhiteSpace c" by (simp add: dropWhile_Nil_iff)
next
  assume "\<forall>c\<in>set s. isWhiteSpace c"
  then have d: "dropWhile isWhiteSpace s = []" by (simp add: dropWhile_Nil_iff)
  show "trim s = []" by (simp only: trim_def d rev.simps dropWhile.simps)
qed

lemma stringify_no_is_new_person: "map_of (stringify res) ''is_new_person'' = None"
  by (simp add: stringify_def optional_field_def map_add_def split: option.splits)

text \<open>
  A failed initialisation is the result, whatever the image data, and the table is what
  it was.
\<close>

lemma recognizeFace_initialize_fails:
  assumes "fst (initialize e s) = Some msg"
  shows "fst (recognizeFace e s img n r) =
           \<lparr> success = False, person = None, res_relationship = None, confidence = None,
             res_color = None,
             message = (if includes_str msg ''fetch''
                        then ''Cannot connect to Python face recognition service - is it running?''
                        else msg),
             error = Some msg \<rparr>
         \<and> faces (snd (recognizeFace e s img n r)) = faces s"
proof -
  obtain s1 where i: "initialize e s = (Some msg, s1)"
    using assms by (cases "initialize e s") simp
  from i have "faces s1 = faces s" using initialize_faces[of e s] by simp
  then show ?thesis by (simp add: recognizeFace_def initialize_guard i)
qed

subsection \<open>The query\<close>

lemma above_threshold_iff:
  "above_threshold op q thr row =
     (\<exists>v. row_similarity op q row = Some v \<and> float8_gt v (Finite thr))"
  by (auto simp: above_threshold_def split: option.splits)

lemma float8_gt_Finite: "float8_gt v (Finite thr) = (case v of NaN \<Rightarrow> True | Finite x \<Rightarrow> thr < x)"
  by (simp add: float8_gt_def split: float8.splits)

lemma below_not_above:
  "(case row_similarity op q row of None \<Rightarrow> True | Some NaN \<Rightarrow> False | Some (Finite x) \<Rightarrow> x < thr)
     \<Longrightarrow> \<not> above_threshold op q thr row"
  by (auto simp: above_threshold_def float8_gt_Finite split: option.splits float8.splits)

lemma identifyFace_None:
  assumes "\<forall>row\<in>set (faces s). \<not> above_threshold (vector_distance e) q (7 / 10) row"
  shows "fst (identifyFace e s q) = None"
proof -
  from assms have "filter (above_threshold (vector_distance e) q (7 / 10)) (faces s) = []"
    by (simp add: filter_empty_conv)
  then show ?thesis
    by (simp add: identifyFace_def match_faces_def Let_def)
qed

lemma sort_key_first:
  assumes "xs \<noteq> []"
  shows "\<exists>y ys. sort_key k xs = y # ys \<and> y \<in> set xs \<and> (\<forall>z\<in>set xs. k y \<le> k z)"
proof -
  from assms have "sort_key k xs \<noteq> []"
    by (metis length_sort length_0_conv)
  then obtain y ys where c: "sort_key k xs = y # ys" by (cases "sort_key k xs") auto
  have "sorted (map k (sort_key k xs))" by simp
  with c have "\<forall>z\<in>set ys. k y \<le> k z" by simp
  moreover have "set (y # ys) = set xs" using c set_sort[of k xs] by simp
  ultimately show ?thesis using c by auto
qed

lemma match_faces_ok:
  assumes "length q = 512" and "embeddings_512 rows"
  shows "match_faces op rows q thr n =
           Inr (take n (map (to_match op q)
                  (sort_key (order_key op q) (filter (above_threshold op q thr) rows))))"
proof -
  from assms(2) have "list_all (\<lambda>r. case face_embedding r of None \<Rightarrow> True
                                 | Some v \<Rightarrow> length v = length q) rows"
    by (auto simp: embeddings_512_def list_all_iff assms(1) split: option.splits)
  with assms(1) show ?thesis by (simp add: match_faces_def)
qed

lemma identifyFace_first:
  assumes "\<not> rpc_fails e" and "length q = 512" and "embeddings_512 (faces s)"
  shows "fst (identifyFace e s q) =
           (case sort_key (order_key (vector_distance e) q)
                   (filter (above_threshold (vector_distance e) q (7 / 10)) (faces s)) of
              [] \<Rightarrow> None | row # _ \<Rightarrow> Some (to_match (vector_distance e) q row))"
  using assms(1) by (simp add: identifyFace_def Let_def match_faces_ok[OF assms(2,3)] split: list.splits)

lemma identifyFace_Some_iff:
  assumes "\<not> rpc_fails e" and "length q = 512" and "embeddings_512 (faces s)"
  shows "(fst (identifyFace e s q) \<noteq> None) =
           (\<exists>row\<in>set (faces s). above_threshold (vector_distance e) q (7 / 10) row)"
proof -
  let ?xs = "filter (above_threshold (vector_distance e) q (7 / 10)) (faces s)"
  have "(sort_key (order_key (vector_distance e) q) ?xs = []) = (?xs = [])"
    by (metis length_sort length_0_conv)
  then have "(fst (identifyFace e s q) \<noteq> None) = (?xs \<noteq> [])"
    by (cases "sort_key (order_key (vector_distance e) q) ?xs") (simp_all add: identifyFace_first[OF assms])
  also have "\<dots> = (\<exists>row\<in>set (faces s). above_threshold (vector_distance e) q (7 / 10) row)"
    by (simp add: filter_empty_conv)
  finally show ?thesis .
qed

lemma similarity_distance:
  assumes "row_similarity op q row = Some (Finite x)"
  shows "row_distance op q row = Some (Finite (1 - x))"
proof -
  from assms obtain d where d: "row_distance op q row = Some d" "float8_minus (Finite 1) d = Finite x"
    by (auto simp: row_similarity_def)
  then show ?thesis by (cases d) (auto simp: float8_minus_def)
qed

lemma similarity_NaN:
  assumes "row_similarity op q row = Some NaN"
  shows "row_distance op q row = Some NaN"
proof -
  from assms obtain d where d: "row_distance op q row = Some d" "float8_minus (Finite 1) d = NaN"
    by (auto simp: row_similarity_def)
  then show ?thesis by (cases d) (auto simp: float8_minus_def)
qed

lemma identifyFace_nearest:
  assumes ok: "\<not> rpc_fails e" "length q = 512" "embeddings_512 (faces s)"
    and row: "row \<in> set (faces s)" "row_similarity (vector_distance e) q row = Some (Finite x)" "7 / 10 < x"
    and others: "\<forall>row'\<in>set (faces s). row' \<noteq> row \<longrightarrow>
                   (case row_similarity (vector_distance e) q row' of
                      None \<Rightarrow> True | Some NaN \<Rightarrow> True | Some (Finite y) \<Rightarrow> y < x)"
  shows "fst (identifyFace e s q) = Some (to_match (vector_distance e) q row)"
proof -
  let ?op = "vector_distance e"
  let ?xs = "filter (above_threshold ?op q (7 / 10)) (faces s)"
  from row have in_xs: "row \<in> set ?xs" by (simp add: above_threshold_iff float8_gt_Finite)
  then have "?xs \<noteq> []" by (metis empty_iff list.set(1))
  from sort_key_first[OF this, of "order_key ?op q"] obtain y ys where
    s: "sort_key (order_key ?op q) ?xs = y # ys" and y: "y \<in> set ?xs"
    and least: "\<forall>z\<in>set ?xs. order_key ?op q y \<le> order_key ?op q z" by blast
  have key_row: "order_key ?op q row = (0, 1 - x)"
    by (simp add: order_key_def ascending_key_def similarity_distance[OF row(2)])
  have "y = row"
  proof (rule ccontr)
    assume ne: "y \<noteq> row"
    from y obtain v where v: "row_similarity ?op q y = Some v" and yin: "y \<in> set (faces s)"
      by (auto simp: above_threshold_iff)
    from least in_xs have le: "order_key ?op q y \<le> (0, 1 - x)" by (simp add: key_row[symmetric])
    show False
    proof (cases v)
      case NaN
      with v have "order_key ?op q y = (1, 0)"
        by (simp add: order_key_def ascending_key_def similarity_NaN)
      with le show False by simp
    next
      case (Finite sy)
      with others yin ne v have "sy < x" by auto
      moreover from v Finite have "order_key ?op q y = (0, 1 - sy)"
        by (simp add: order_key_def ascending_key_def similarity_distance)
      ultimately show False using le by simp
    qed
  qed
  with s show ?thesis by (simp add: identifyFace_first[OF ok])
qed

subsection \<open>The insert\<close>

lemma hexColors_length: "c \<in> set hexColors \<Longrightarrow> length c = 7"
  by (auto simp: hexColors_def)

lemma getRandomColor_Some:
  assumes "getRandomColor x = Some c"
  shows "c \<in> set hexColors"
proof -
  let ?i = "\<lfloor>x * real (length hexColors)\<rfloor>"
  from assms have "0 \<le> ?i" "?i < int (length hexColors)" "c = hexColors ! nat ?i"
    by (auto simp: getRandomColor_def Let_def split: if_splits)
  then have "nat ?i < length hexColors" "c = hexColors ! nat ?i" by linarith+
  then show ?thesis by simp
qed

lemma getRandomColor_range:
  assumes "0 \<le> x" and "x < 1"
  shows "\<exists>c\<in>set hexColors. getRandomColor x = Some c"
proof -
  have len: "length hexColors = 12" by (simp add: hexColors_def)
  from assms have "0 \<le> x * 12" "x * 12 < 12" by simp_all
  then have fl: "0 \<le> \<lfloor>x * 12\<rfloor>" "\<lfloor>x * 12\<rfloor> < 12" by (simp_all add: floor_less_iff)
  then have "getRandomColor x = Some (hexColors ! nat \<lfloor>x * 12\<rfloor>)"
    by (simp add: getRandomColor_def len)
  moreover from fl have "nat \<lfloor>x * 12\<rfloor> < length hexColors"
    unfolding len by linarith
  ultimately show ?thesis by (metis nth_mem)
qed

lemma varchar_short: "length s \<le> n \<Longrightarrow> varchar n s = Inr s"
  by (simp add: varchar_def)

lemma varchar_color:
  "varchar 50 (case getRandomColor x of None \<Rightarrow> ''blue'' | Some c \<Rightarrow> c)
     = Inr (case getRandomColor x of None \<Rightarrow> ''blue'' | Some c \<Rightarrow> c)"
  by (rule varchar_short) (auto split: option.splits dest!: getRandomColor_Some hexColors_length)

lemma insert_faces_accepts:
  assumes "varchar 255 N = Inr n'" and "varchar 255 R = Inr r'"
    and "length v = 512" and "uid \<notin> set (map id' rows)"
  shows "insert_faces uid t rows
           \<lparr> new_name = N, new_relationship = R, new_color = getRandomColor x,
             new_face_embedding = Some v, new_image_url = None, new_user_id = None \<rparr>
         = Inr \<lparr> id' = uid, name = n', relationship = r',
                 color = (case getRandomColor x of None \<Rightarrow> ''blue'' | Some c \<Rightarrow> c),
                 face_embedding = Some v, image_url = None, created_at = t, updated_at = t,
                 user_id = None \<rparr>"
  using assms by (simp add: insert_faces_def varchar_color unique_name_per_user_def)

lemma addFace_accepts:
  assumes "\<not> insert_fails e" and "varchar 255 N = Inr n'" and "varchar 255 R = Inr r'"
    and "length v = 512" and "uuid e \<notin> set (map id' (faces s))"
  shows "\<exists>s'. addFace e s
           \<lparr> new_name = N, new_relationship = R, new_color = getRandomColor x,
             new_face_embedding = Some v, new_image_url = None, new_user_id = None \<rparr>
         = (Some \<lparr> id' = uuid e, name = n', relationship = r',
                 color = (case getRandomColor x of None \<Rightarrow> ''blue'' | Some c \<Rightarrow> c),
                 face_embedding = Some v, image_url = None, created_at = now e, updated_at = now e,
                 user_id = None \<rparr>, s')
         \<and> faces s' = faces s @ [\<lparr> id' = uuid e, name = n', relationship = r',
                 color = (case getRandomColor x of None \<Rightarrow> ''blue'' | Some c \<Rightarrow> c),
                 face_embedding = Some v, image_url = None, created_at = now e, updated_at = now e,
                 user_id = None \<rparr>]"
  using assms(1) by (simp add: addFace_def Let_def insert_faces_accepts[OF assms(2-5)] log_call_def)

lemma insert_faces_InrD:
  "insert_faces uid t rows d = Inr row \<Longrightarrow>
     varchar 255 (new_name d) = Inr (name row) \<and> varchar 255 (new_relationship d) = Inr (relationship row)
     \<and> id' row = uid \<and> face_embedding row = new_face_embedding d"
  by (auto simp: insert_faces_def split: sum.splits if_splits)

lemma recognizeFace_created:
  assumes "recognizeFace e s img n r = (res, s')" and "success res" and "confidence res = Some 1"
  shows "\<exists>row. truthy n \<and> truthy r \<and> faces s' = faces s @ [row]
           \<and> varchar 255 (the n) = Inr (name row) \<and> varchar 255 (the r) = Inr (relationship row)
           \<and> person res = Some (name row) \<and> res_relationship res = Some (relationship row)"
proof -
  obtain x s1 where i: "initialize e s = (x, s1)" by (cases "initialize e s")
  from assms(1,2) i have x: "x = None"
    by (cases x) (auto simp: recognizeFace_def initialize_guard)
  from assms(1,2) i x have t: "trim img \<noteq> []"
    by (auto simp: recognizeFace_def initialize_guard split: if_splits)
  obtain ds s2 where d: "detectFaces e s (buffer_from e img) = (ds, s2)"
    by (cases "detectFaces e s (buffer_from e img)")
  from i x have d1: "detectFaces e s1 (buffer_from e img) = (ds, s2)"
    using detectFaces_after_init[of e s s1 "buffer_from e img"] d by simp
  from assms(1,2) i x t d1 obtain f fs where ds: "ds = f # fs"
    by (cases ds) (auto simp: recognizeFace_def initialize_guard)
  obtain m s3 where idf: "identifyFace e s2 (embedding f) = (m, s3)"
    by (cases "identifyFace e s2 (embedding f)")
  note rd = recognizeFace_detected[OF t d[unfolded ds], of n r]
  from assms rd idf have m: "m = None"
    by (cases m) auto
  let ?d = "\<lparr> new_name = the n, new_relationship = the r,
                new_color = getRandomColor (math_random e),
                new_face_embedding = Some (embedding f),
                new_image_url = None, new_user_id = None \<rparr>"
  obtain y s4 where a: "addFace e s3 ?d = (y, s4)" by (cases "addFace e s3 ?d")
  from assms rd idf m a have tr: "truthy n \<and> truthy r"
    by (auto simp: Let_def split: if_splits)
  from assms rd idf m a tr obtain row where y: "y = Some row"
    by (cases y) (auto simp: Let_def)
  from assms(1) rd idf m a tr y have res: "res = \<lparr> success = True, person = Some (name row),
                               res_relationship = Some (relationship row),
                               confidence = Some 1,
                               res_color = Some (color row),
                               message = ''Added new person: '' @ name row
                                         @ '' ('' @ relationship row @ '')'',
                               error = None \<rparr>" and s': "s' = s4"
    by (auto simp: Let_def)
  from addFace_SomeD[OF a[unfolded y]] have ins: "insert_faces (uuid e) (now e) (faces s3) ?d = Inr row"
    and fs4: "faces s4 = faces s3 @ [row]" by simp_all
  have "faces s3 = faces s"
    using identifyFace_facesD[OF idf] detectFaces_facesD[OF d] by simp
  with fs4 s' insert_faces_InrD[OF ins] res tr show ?thesis by simp
qed

subsection \<open>Facts about the example data\<close>

lemma example_decode: "base64_bytes (base64_sextets ''aGVsbG8='') = [104, 101, 108, 108, 111]"
  by (simp add: base64_chars_def)

lemma example_encode: "toString_base64 [104, 101, 108, 108, 111] = ''aGVsbG8=''"
  by (simp add: base64_chars_def)

lemma example_env_store:
  "rpc_fails (example_env vs) = False" "insert_fails (example_env vs) = False"
  "math_random (example_env vs) = 1 / 2" "uuid (example_env vs) = 7" "now (example_env vs) = 1000"
  "vector_distance (example_env vs) = cosine_distance"
  "buffer_from (example_env vs) ''aGVsbG8='' = [104, 101, 108, 108, 111]"
  by (simp_all add: example_env_def base64_chars_def)

lemma example_detect:
  "detectFaces (example_env vs) (example_state rows) [104, 101, 108, 108, 111] =
     (map to_detection (map example_face vs),
      \<lparr> modelsLoaded = True, faces = rows, calls = [Health, Detect ''aGVsbG8=''] \<rparr>)"
  by (simp add: detectFaces_def initialize_def example_env_def example_state_def
      response_ok_def log_call_def base64_chars_def Let_def)

lemma example_detect_store:
  "detectFaces ((example_env vs)\<lparr>rpc_fails := a, insert_fails := b\<rparr>) (example_state rows)
       [104, 101, 108, 108, 111] =
     (map to_detection (map example_face vs),
      \<lparr> modelsLoaded = True, faces = rows, calls = [Health, Detect ''aGVsbG8=''] \<rparr>)"
  by (simp add: detectFaces_def initialize_def example_env_def example_state_def
      response_ok_def log_call_def base64_chars_def Let_def)

lemma detectFaces_loaded:
  assumes "modelsLoaded s" and "detect e (toString_base64 b) = DetectResponse st (Some body)"
    and "response_ok st" and "py_success body"
  shows "detectFaces e s b = (map to_detection (py_faces body), log_call (Detect (toString_base64 b)) s)"
  using assms by (simp add: detectFaces_def Let_def)

lemma inner_product_Cons: "inner_product (x # xs) (y # ys) = x * y + inner_product xs ys"
  by (simp add: inner_product_def)

lemma inner_product_Nil: "inner_product [] ys = 0"
  by (simp add: inner_product_def)

lemma inner_product_zeros: "inner_product (replicate n 0) (replicate n 0) = 0"
  by (induction n) (simp_all add: inner_product_def)

lemma inner_product_append:
  "length xs = length ys \<Longrightarrow> inner_product (xs @ zs) (ys @ ws) = inner_product xs ys + inner_product zs ws"
  by (simp add: inner_product_def)

lemma inner_product_pad:
  "length xs = length ys \<Longrightarrow> inner_product (pad xs) (pad ys) = inner_product xs ys"
  by (simp add: pad_def inner_product_append inner_product_zeros)

lemma cosine_distance_pad:
  "length xs = length ys \<Longrightarrow> cosine_distance (pad xs) (pad ys) = cosine_distance xs ys"
  by (simp add: cosine_distance_def inner_product_pad)

lemma length_pad: "length xs \<le> 512 \<Longrightarrow> length (pad xs) = 512"
  by (simp add: pad_def)

lemma example_row_embedding: "face_embedding (example_row i n rel v) = Some (pad v)"
  by (simp add: example_row_def)

lemma example_row_fields:
  "id' (example_row i n rel v) = i" "name (example_row i n rel v) = n"
  "relationship (example_row i n rel v) = rel" "color (example_row i n rel v) = ''#4ECDC4''"
  "user_id (example_row i n rel v) = None"
  by (simp_all add: example_row_def)

lemma example_similarity:
  "length v = length q \<Longrightarrow>
     row_similarity cosine_distance (pad q) (example_row i n rel v) =
       Some (float8_minus (Finite 1) (cosine_distance v q))"
  by (simp add: row_similarity_def row_distance_def example_row_embedding cosine_distance_pad)

lemma sqrt_25: "sqrt 25 = 5"
  by (rule real_sqrt_unique) simp_all

lemma sqrt_100: "sqrt 100 = 10"
  by (rule real_sqrt_unique) simp_all

lemma similarity_unit_4_3:
  "row_similarity cosine_distance (pad [1, 0]) (example_row i n rel [4, 3]) = Some (Finite (4 / 5))"
  by (simp add: example_similarity cosine_distance_def inner_product_Cons inner_product_Nil sqrt_25
      float8_minus_def)

lemma similarity_unit_7117:
  "row_similarity cosine_distance (pad [1, 0, 0, 0]) (example_row i n rel [7, 1, 1, 7]) =
     Some (Finite (7 / 10))"
  by (simp add: example_similarity cosine_distance_def inner_product_Cons inner_product_Nil sqrt_100
      float8_minus_def)

lemma similarity_unit_same:
  "row_similarity cosine_distance (pad [1, 0]) (example_row i n rel [1, 0]) = Some (Finite 1)"
  by (simp add: example_similarity cosine_distance_def inner_product_Cons inner_product_Nil
      float8_minus_def)

lemma similarity_unit_orthogonal:
  "row_similarity cosine_distance (pad [1, 0]) (example_row i n rel [0, 1]) = Some (Finite 0)"
  by (simp add: example_similarity cosine_distance_def inner_product_Cons inner_product_Nil
      float8_minus_def)

lemma image_not_blank: "trim ''aGVsbG8='' \<noteq> []"
  by (simp add: trim_def isWhiteSpace_def)

lemma random_half_color: "getRandomColor (1 / 2) = Some ''#FFB6C1''"
  by (simp add: getRandomColor_def hexColors_def)

lemma example_state_faces: "faces (example_state rows) = rows"
  by (simp add: example_state_def)

lemma example_create_call:
  "recognizeFace (example_env [[1, 0]]) (example_state []) ''aGVsbG8='' (Some ''Ana'') (Some ''Daughter'') =
     (\<lparr> success = True, person = Some ''Ana'', res_relationship = Some ''Daughter'',
        confidence = Some 1, res_color = Some ''#FFB6C1'',
        message = ''Added new person: Ana (Daughter)'', error = None \<rparr>,
      \<lparr> modelsLoaded = True,
        faces = [\<lparr> id' = 7, name = ''Ana'', relationship = ''Daughter'', color = ''#FFB6C1'',
                   face_embedding = Some (pad [1, 0]), image_url = None, created_at = 1000,
                   updated_at = 1000, user_id = None \<rparr>],
        calls = [Health, Detect ''aGVsbG8='', MatchFaces (pad [1, 0]) (7 / 10) 1,
                 InsertFace \<lparr> new_name = ''Ana'', new_relationship = ''Daughter'',
                              new_color = Some ''#FFB6C1'', new_face_embedding = Some (pad [1, 0]),
                              new_image_url = None, new_user_id = None \<rparr>] \<rparr>)"
  by (simp add: recognizeFace_detected[OF image_not_blank] example_detect to_detection_def
      example_face_def identifyFace_def match_faces_def length_pad addFace_def insert_faces_def
      varchar_def unique_name_per_user_def random_half_color example_env_store log_call_def
      truthy_def Let_def del: One_nat_def)

lemma similarity_zero_row:
  "row_similarity cosine_distance (pad [1, 0]) (example_row i n rel [0, 0]) = Some NaN"
  by (simp add: example_similarity cosine_distance_def inner_product_Cons inner_product_Nil
      float8_minus_def)

lemma example_detect_loaded:
  assumes "modelsLoaded s" and "detect e = detect (example_env vs)"
  shows "detectFaces e s [104, 101, 108, 108, 111] =
     (map to_detection (map example_face vs), log_call (Detect ''aGVsbG8='') s)"
  using assms(1)
  by (simp add: detectFaces_def assms(2) example_env_def response_ok_def base64_chars_def Let_def)

lemma stored_similarity:
  assumes "face_embedding r = Some (pad v)" and "length v = length q"
  shows "row_similarity cosine_distance (pad q) r = Some (float8_minus (Finite 1) (cosine_distance v q))"
  by (simp add: row_similarity_def row_distance_def assms(1) cosine_distance_pad[OF assms(2)])

lemma example_match_call:
  "recognizeFace (example_env [[1, 0]]) (example_state [example_row 3 ''Ana'' ''Daughter'' [1, 0]])
      ''aGVsbG8='' n r =
     (\<lparr> success = True, person = Some ''Ana'', res_relationship = Some ''Daughter'',
        confidence = Some (8 / 10), res_color = Some ''#4ECDC4'',
        message = ''Found existing person: Ana (Daughter)'', error = None \<rparr>,
      \<lparr> modelsLoaded = True, faces = [example_row 3 ''Ana'' ''Daughter'' [1, 0]],
        calls = [Health, Detect ''aGVsbG8='', MatchFaces (pad [1, 0]) (7 / 10) 1] \<rparr>)"
  by (simp add: recognizeFace_detected[OF image_not_blank] example_detect to_detection_def
      example_face_def identifyFace_def match_faces_def length_pad example_row_embedding
      above_threshold_def similarity_unit_same float8_gt_def to_match_def example_row_fields
      example_env_store log_call_def Let_def del: One_nat_def)

section \<open>The claims\<close>

text \<open>
  C1, as stated, fails in three ways. A record at similarity exactly 0.7 is not matched
  (the comparison is strict). The result of a match has no field
  \<^verbatim>\<open>is_new_person\<close>: the response of the tool is the JSON of
  \<^verbatim>\<open>FaceRecognitionResult\<close>, which has none. And of two records at the same
  similarity, neither closer than the other, only one can be returned.
\<close>

theorem match_counterexample:
  "row_similarity (vector_distance (example_env [[1, 0, 0, 0]])) (pad [1, 0, 0, 0])
       (example_row 3 ''Ana'' ''Daughter'' [7, 1, 1, 7]) = Some (Finite (7 / 10))
   \<and> success (fst (recognizeFace (example_env [[1, 0, 0, 0]])
         (example_state [example_row 3 ''Ana'' ''Daughter'' [7, 1, 1, 7]]) ''aGVsbG8='' None None)) = False
   \<and> row_similarity (vector_distance (example_env [[1, 0]])) (pad [1, 0])
       (example_row 3 ''Ana'' ''Daughter'' [1, 0]) = Some (Finite 1)
   \<and> person (fst (recognizeFace (example_env [[1, 0]])
         (example_state [example_row 3 ''Ana'' ''Daughter'' [1, 0]]) ''aGVsbG8='' None None)) = Some ''Ana''
   \<and> map_of (stringify (fst (recognizeFace (example_env [[1, 0]])
         (example_state [example_row 3 ''Ana'' ''Daughter'' [1, 0]]) ''aGVsbG8='' None None)))
        ''is_new_person'' \<noteq> Some (JBool False)
   \<and> row_similarity (vector_distance (example_env [[1, 0]])) (pad [1, 0])
       (example_row 4 ''Ben'' ''Friend'' [1, 0]) = Some (Finite 1)
   \<and> person (fst (recognizeFace (example_env [[1, 0]])
         (example_state [example_row 3 ''Ana'' ''Daughter'' [1, 0], example_row 4 ''Ben'' ''Friend'' [1, 0]])
         ''aGVsbG8='' None None)) \<noteq> Some ''Ben''"
proof -
  let ?op = "cosine_distance"
  have id_a: "fst (identifyFace (example_env [[1, 0, 0, 0]])
        \<lparr> modelsLoaded = True, faces = [example_row 3 ''Ana'' ''Daughter'' [7, 1, 1, 7]],
          calls = [Health, Detect ''aGVsbG8=''] \<rparr> (pad [1, 0, 0, 0])) = None"
    by (rule identifyFace_None)
      (simp add: above_threshold_def example_env_store similarity_unit_7117 float8_gt_def)
  have a: "success (fst (recognizeFace (example_env [[1, 0, 0, 0]])
         (example_state [example_row 3 ''Ana'' ''Daughter'' [7, 1, 1, 7]]) ''aGVsbG8='' None None)) = False"
    using id_a
    by (cases "identifyFace (example_env [[1, 0, 0, 0]])
        \<lparr> modelsLoaded = True, faces = [example_row 3 ''Ana'' ''Daughter'' [7, 1, 1, 7]],
          calls = [Health, Detect ''aGVsbG8=''] \<rparr> (pad [1, 0, 0, 0])")
      (simp add: recognizeFace_detected[OF image_not_blank] example_env_store example_detect
        to_detection_def example_face_def truthy_def)
  have key_b: "order_key ?op (pad [1, 0]) (example_row i n rel [1, 0]) = (0, 0)" for i n rel
    using similarity_distance[OF similarity_unit_same, of i n rel]
    by (simp add: order_key_def ascending_key_def)
  have ok: "\<not> rpc_fails (example_env [[1, 0]])" "length (pad [1, 0]) = 512"
    by (simp_all add: example_env_store length_pad)
  have id_b: "fst (identifyFace (example_env [[1, 0]])
        \<lparr> modelsLoaded = True, faces = [example_row 3 ''Ana'' ''Daughter'' [1, 0]],
          calls = [Health, Detect ''aGVsbG8=''] \<rparr> (pad [1, 0]))
        = Some (to_match ?op (pad [1, 0]) (example_row 3 ''Ana'' ''Daughter'' [1, 0]))"
    by (subst identifyFace_first[OF ok])
      (simp_all add: embeddings_512_def example_row_embedding length_pad above_threshold_def
        example_env_store similarity_unit_same float8_gt_def)
  have b: "person (fst (recognizeFace (example_env [[1, 0]])
         (example_state [example_row 3 ''Ana'' ''Daughter'' [1, 0]]) ''aGVsbG8='' None None)) = Some ''Ana''"
    using id_b
    by (cases "identifyFace (example_env [[1, 0]])
        \<lparr> modelsLoaded = True, faces = [example_row 3 ''Ana'' ''Daughter'' [1, 0]],
          calls = [Health, Detect ''aGVsbG8=''] \<rparr> (pad [1, 0])")
      (simp add: recognizeFace_detected[OF image_not_blank] example_env_store example_detect
        to_detection_def example_face_def to_match_def example_row_fields)
  have id_c: "fst (identifyFace (example_env [[1, 0]])
        \<lparr> modelsLoaded = True,
          faces = [example_row 3 ''Ana'' ''Daughter'' [1, 0], example_row 4 ''Ben'' ''Friend'' [1, 0]],
          calls = [Health, Detect ''aGVsbG8=''] \<rparr> (pad [1, 0]))
        = Some (to_match ?op (pad [1, 0]) (example_row 3 ''Ana'' ''Daughter'' [1, 0]))"
    by (subst identifyFace_first[OF ok])
      (simp_all add: embeddings_512_def example_row_embedding length_pad above_threshold_def
        example_env_store similarity_unit_same float8_gt_def key_b)
  have c: "person (fst (recognizeFace (example_env [[1, 0]])
         (example_state [example_row 3 ''Ana'' ''Daughter'' [1, 0], example_row 4 ''Ben'' ''Friend'' [1, 0]])
         ''aGVsbG8='' None None)) = Some ''Ana''"
    using id_c
    by (cases "identifyFace (example_env [[1, 0]])
        \<lparr> modelsLoaded = True,
          faces = [example_row 3 ''Ana'' ''Daughter'' [1, 0], example_row 4 ''Ben'' ''Friend'' [1, 0]],
          calls = [Health, Detect ''aGVsbG8=''] \<rparr> (pad [1, 0])")
      (simp add: recognizeFace_detected[OF image_not_blank] example_env_store example_detect
        to_detection_def example_face_def to_match_def example_row_fields)
  from a b c show ?thesis
    by (simp add: stringify_no_is_new_person example_env_store similarity_unit_7117 similarity_unit_same)
qed

text \<open>
  C1, amended. The store answers the query; a stored record has a similarity to the
  first face's descriptor strictly greater than 0.7, and every other record is strictly
  farther away (or has no number for a similarity, its embedding being NULL or the
  operator yielding NaN). Then \<^verbatim>\<open>recognizeFace\<close> returns the success result with
  that record's name, relationship and color and the fixed confidence 0.8; the response
  has no field \<^verbatim>\<open>is_new_person\<close>; the table is what it was.
\<close>

theorem match_returns_record:
  assumes "trim img \<noteq> []"
    and "detectFaces e s (buffer_from e img) = (f # fs, s2)"
    and "\<not> rpc_fails e" and "length (embedding f) = 512" and "embeddings_512 (faces s)"
    and "row \<in> set (faces s)"
    and "row_similarity (vector_distance e) (embedding f) row = Some (Finite x)" and "7 / 10 < x"
    and "\<forall>row'\<in>set (faces s). row' \<noteq> row \<longrightarrow>
           (case row_similarity (vector_distance e) (embedding f) row' of
              None \<Rightarrow> True | Some NaN \<Rightarrow> True | Some (Finite y) \<Rightarrow> y < x)"
  shows "fst (recognizeFace e s img n r) =
           \<lparr> success = True, person = Some (name row), res_relationship = Some (relationship row),
             confidence = Some (8 / 10), res_color = Some (color row),
             message = ''Found existing person: '' @ name row @ '' ('' @ relationship row @ '')'',
             error = None \<rparr>
         \<and> map_of (stringify (fst (recognizeFace e s img n r))) ''is_new_person'' = None
         \<and> faces (snd (recognizeFace e s img n r)) = faces s"
proof -
  from assms(2) have fs2: "faces s2 = faces s" by (rule detectFaces_facesD)
  obtain m s3 where i: "identifyFace e s2 (embedding f) = (m, s3)"
    by (cases "identifyFace e s2 (embedding f)")
  from identifyFace_nearest[OF assms(3,4) _ _ assms(7,8), of s2] assms(5,6,9) fs2 i
  have m: "m = Some (to_match (vector_distance e) (embedding f) row)" by simp
  from i have fs3: "faces s3 = faces s2" by (rule identifyFace_facesD)
  show ?thesis
    by (simp add: recognizeFace_detected[OF assms(1,2)] i m fs3 fs2 to_match_def
        stringify_no_is_new_person)
qed

theorem match_returns_record_witness:
  "fst (recognizeFace (example_env [[1, 0]])
         (example_state [example_row 3 ''Ana'' ''Daughter'' [4, 3], example_row 4 ''Ben'' ''Friend'' [0, 1]])
         ''aGVsbG8='' None None) =
     \<lparr> success = True, person = Some ''Ana'', res_relationship = Some ''Daughter'',
       confidence = Some (8 / 10), res_color = Some ''#4ECDC4'',
       message = ''Found existing person: Ana (Daughter)'', error = None \<rparr>
   \<and> faces (snd (recognizeFace (example_env [[1, 0]])
         (example_state [example_row 3 ''Ana'' ''Daughter'' [4, 3], example_row 4 ''Ben'' ''Friend'' [0, 1]])
         ''aGVsbG8='' None None)) =
       [example_row 3 ''Ana'' ''Daughter'' [4, 3], example_row 4 ''Ben'' ''Friend'' [0, 1]]"
proof -
  let ?e = "example_env [[1, 0]]"
  let ?rows = "[example_row 3 ''Ana'' ''Daughter'' [4, 3], example_row 4 ''Ben'' ''Friend'' [0, 1]]"
  let ?f = "to_detection (example_face [1, 0])"
  have emb: "embedding ?f = pad [1, 0]" by (simp add: to_detection_def example_face_def)
  have 2: "detectFaces ?e (example_state ?rows) (buffer_from ?e ''aGVsbG8='') =
     (?f # [], \<lparr> modelsLoaded = True, faces = ?rows, calls = [Health, Detect ''aGVsbG8=''] \<rparr>)"
    by (simp add: example_env_store example_detect)
  have 3: "\<not> rpc_fails ?e" by (simp add: example_env_store)
  have 4: "length (embedding ?f) = 512" by (simp add: emb length_pad)
  have 5: "embeddings_512 (faces (example_state ?rows))"
    by (simp add: embeddings_512_def example_state_def example_row_embedding length_pad)
  have 6: "example_row 3 ''Ana'' ''Daughter'' [4, 3] \<in> set (faces (example_state ?rows))"
    by (simp add: example_state_def)
  have 7: "row_similarity (vector_distance ?e) (embedding ?f) (example_row 3 ''Ana'' ''Daughter'' [4, 3])
             = Some (Finite (4 / 5))"
    by (simp add: emb example_env_store similarity_unit_4_3)
  have 8: "7 / 10 < (4 / 5 :: real)" by simp
  have 9: "\<forall>row'\<in>set (faces (example_state ?rows)). row' \<noteq> example_row 3 ''Ana'' ''Daughter'' [4, 3] \<longrightarrow>
           (case row_similarity (vector_distance ?e) (embedding ?f) row' of
              None \<Rightarrow> True | Some NaN \<Rightarrow> True | Some (Finite y) \<Rightarrow> y < 4 / 5)"
    by (simp add: example_state_def emb example_env_store similarity_unit_orthogonal)
  from match_returns_record[OF image_not_blank 2 3 4 5 6 7 8 9, of None None]
  show ?thesis by (simp add: example_row_fields example_state_def)
qed

text \<open>
  C2, as stated, fails: the result of the create path has no field
  \<^verbatim>\<open>is_new_person\<close>. With an empty table, a face, and the name Ana and the
  relationship Daughter, the response is the six fields below.
\<close>

theorem create_counterexample:
  "fst (recognizeFace (example_env [[1, 0]]) (example_state []) ''aGVsbG8=''
          (Some ''Ana'') (Some ''Daughter'')) =
     \<lparr> success = True, person = Some ''Ana'', res_relationship = Some ''Daughter'',
       confidence = Some 1, res_color = Some ''#FFB6C1'',
       message = ''Added new person: Ana (Daughter)'', error = None \<rparr>
   \<and> stringify (fst (recognizeFace (example_env [[1, 0]]) (example_state []) ''aGVsbG8=''
          (Some ''Ana'') (Some ''Daughter''))) =
     [(''success'', JBool True), (''person'', JString ''Ana''),
      (''relationship'', JString ''Daughter''), (''confidence'', JNumber 1),
      (''color'', JString ''#FFB6C1''), (''message'', JString ''Added new person: Ana (Daughter)'')]
   \<and> map_of (stringify (fst (recognizeFace (example_env [[1, 0]]) (example_state []) ''aGVsbG8=''
          (Some ''Ana'') (Some ''Daughter'')))) ''is_new_person'' \<noteq> Some (JBool True)"
  by (simp add: example_create_call stringify_def optional_field_def)

text \<open>
  C2, amended. Every stored record has a similarity to the first face's descriptor that
  is a number below the threshold (or has no embedding; a similarity that is NaN is not
  below the threshold: the query selects it). Name and relationship are both given and
  not empty, and the store accepts the insert: it answers, name and relationship fit
  \<^verbatim>\<open>VARCHAR(255)\<close>, the descriptor has 512 dimensions, the uuid is fresh (and
  \<^verbatim>\<open>Math.random()\<close> is in its range). Then \<^verbatim>\<open>recognizeFace\<close> appends exactly one
  row, holding that name, that relationship, the descriptor and a color of the palette,
  and returns the success result with that person and confidence 1; the response has no
  field \<^verbatim>\<open>is_new_person\<close>.
\<close>

theorem create_new_record:
  assumes "trim img \<noteq> []"
    and "detectFaces e s (buffer_from e img) = (f # fs, s2)"
    and "\<forall>row\<in>set (faces s).
           case row_similarity (vector_distance e) (embedding f) row of
             None \<Rightarrow> True | Some NaN \<Rightarrow> False | Some (Finite x) \<Rightarrow> x < 7 / 10"
    and "N \<noteq> []" and "R \<noteq> []"
    and "\<not> insert_fails e" and "length N \<le> 255" and "length R \<le> 255"
    and "length (embedding f) = 512" and "uuid e \<notin> set (map id' (faces s))"
    and "0 \<le> math_random e" and "math_random e < 1"
  shows "\<exists>c\<in>set hexColors.
           faces (snd (recognizeFace e s img (Some N) (Some R))) =
             faces s @ [\<lparr> id' = uuid e, name = N, relationship = R, color = c,
                          face_embedding = Some (embedding f), image_url = None,
                          created_at = now e, updated_at = now e, user_id = None \<rparr>]
         \<and> fst (recognizeFace e s img (Some N) (Some R)) =
             \<lparr> success = True, person = Some N, res_relationship = Some R,
               confidence = Some 1, res_color = Some c,
               message = ''Added new person: '' @ N @ '' ('' @ R @ '')'', error = None \<rparr>
         \<and> map_of (stringify (fst (recognizeFace e s img (Some N) (Some R)))) ''is_new_person'' = None"
proof -
  from getRandomColor_range[OF assms(11,12)] obtain c where
    c: "c \<in> set hexColors" "getRandomColor (math_random e) = Some c" by blast
  from assms(2) have fs2: "faces s2 = faces s" by (rule detectFaces_facesD)
  obtain x s3 where i: "identifyFace e s2 (embedding f) = (x, s3)"
    by (cases "identifyFace e s2 (embedding f)")
  from assms(3) fs2
  have "\<forall>row\<in>set (faces s2). \<not> above_threshold (vector_distance e) (embedding f) (7 / 10) row"
    by (auto dest: below_not_above)
  from identifyFace_None[OF this] i have x: "x = None" by simp
  from i have "faces s3 = faces s2" by (rule identifyFace_facesD)
  with fs2 have fs3: "faces s3 = faces s" by simp
  from assms(10) fs3 have fresh: "uuid e \<notin> set (map id' (faces s3))" by simp
  from addFace_accepts[OF assms(6) varchar_short[OF assms(7)] varchar_short[OF assms(8)] assms(9) fresh,
      of "math_random e"]
  obtain s4 where a: "addFace e s3
           \<lparr> new_name = N, new_relationship = R, new_color = getRandomColor (math_random e),
             new_face_embedding = Some (embedding f), new_image_url = None, new_user_id = None \<rparr>
         = (Some \<lparr> id' = uuid e, name = N, relationship = R,
                 color = c,
                 face_embedding = Some (embedding f), image_url = None, created_at = now e,
                 updated_at = now e, user_id = None \<rparr>, s4)"
    and fs4: "faces s4 = faces s @ [\<lparr> id' = uuid e, name = N, relationship = R,
                 color = c,
                 face_embedding = Some (embedding f), image_url = None, created_at = now e,
                 updated_at = now e, user_id = None \<rparr>]"
    by (auto simp: c(2) fs3)
  have "faces (snd (recognizeFace e s img (Some N) (Some R))) =
             faces s @ [\<lparr> id' = uuid e, name = N, relationship = R, color = c,
                          face_embedding = Some (embedding f), image_url = None,
                          created_at = now e, updated_at = now e, user_id = None \<rparr>]
         \<and> fst (recognizeFace e s img (Some N) (Some R)) =
             \<lparr> success = True, person = Some N, res_relationship = Some R,
               confidence = Some 1, res_color = Some c,
               message = ''Added new person: '' @ N @ '' ('' @ R @ '')'', error = None \<rparr>"
    using assms(4,5)
    by (simp add: recognizeFace_detected[OF assms(1,2)] i x a fs4 truthy_def Let_def)
  with c(1) show ?thesis by (auto simp: stringify_no_is_new_person)
qed

theorem create_new_record_witness:
  "\<exists>c\<in>set hexColors.
     faces (snd (recognizeFace (example_env [[1, 0]])
                  (example_state [example_row 3 ''Ana'' ''Daughter'' [0, 1]]) ''aGVsbG8=''
                  (Some ''Ben'') (Some ''Friend''))) =
       [example_row 3 ''Ana'' ''Daughter'' [0, 1],
        \<lparr> id' = 7, name = ''Ben'', relationship = ''Friend'', color = c,
          face_embedding = Some (pad [1, 0]), image_url = None,
          created_at = 1000, updated_at = 1000, user_id = None \<rparr>]
   \<and> fst (recognizeFace (example_env [[1, 0]])
                  (example_state [example_row 3 ''Ana'' ''Daughter'' [0, 1]]) ''aGVsbG8=''
                  (Some ''Ben'') (Some ''Friend'')) =
       \<lparr> success = True, person = Some ''Ben'', res_relationship = Some ''Friend'',
         confidence = Some 1, res_color = Some c,
         message = ''Added new person: Ben (Friend)'', error = None \<rparr>
   \<and> map_of (stringify (fst (recognizeFace (example_env [[1, 0]])
                  (example_state [example_row 3 ''Ana'' ''Daughter'' [0, 1]]) ''aGVsbG8=''
                  (Some ''Ben'') (Some ''Friend'')))) ''is_new_person'' = None"
proof -
  let ?e = "example_env [[1, 0]]"
  let ?rows = "[example_row 3 ''Ana'' ''Daughter'' [0, 1]]"
  let ?f = "to_detection (example_face [1, 0])"
  have emb: "embedding ?f = pad [1, 0]" by (simp add: to_detection_def example_face_def)
  have 2: "detectFaces ?e (example_state ?rows) (buffer_from ?e ''aGVsbG8='') =
     (?f # [], \<lparr> modelsLoaded = True, faces = ?rows, calls = [Health, Detect ''aGVsbG8=''] \<rparr>)"
    by (simp add: example_env_store example_detect)
  have 3: "\<forall>row\<in>set (faces (example_state ?rows)).
      case row_similarity (vector_distance ?e) (embedding ?f) row of
        None \<Rightarrow> True | Some NaN \<Rightarrow> False | Some (Finite x) \<Rightarrow> x < 7 / 10"
    by (simp add: example_state_def emb example_env_store similarity_unit_orthogonal)
  have 4: "''Ben'' \<noteq> []" "''Friend'' \<noteq> []" by simp_all
  have 6: "\<not> insert_fails ?e" by (simp add: example_env_store)
  have 7: "length ''Ben'' \<le> 255" "length ''Friend'' \<le> 255" by simp_all
  have 9: "length (embedding ?f) = 512" by (simp add: emb length_pad)
  have 10: "uuid ?e \<notin> set (map id' (faces (example_state ?rows)))"
    by (simp add: example_env_store example_state_def example_row_fields)
  have 11: "0 \<le> math_random ?e" "math_random ?e < 1" by (simp_all add: example_env_store)
  from create_new_record[OF image_not_blank 2 3 4 6 7 9 10 11]
  show ?thesis by (simp add: example_env_store example_state_def emb)
qed

text \<open>
  C3. An image in which the detector finds no face: the service is initialised (or its
  health check succeeds), the image data is not blank, and \<^verbatim>\<open>detectFaces\<close>, given
  the decoded image, yields the empty list. Then \<^verbatim>\<open>recognizeFace\<close> returns the
  failure result with the message \<^verbatim>\<open>No faces detected in the image\<close>. Being a value
  of the function, the result is returned, not thrown.
\<close>

theorem no_faces_detected:
  assumes "fst (initialize e s) = None"
    and "trim img \<noteq> []"
    and "fst (detectFaces e s (buffer_from e img)) = []"
  shows "fst (recognizeFace e s img n r) =
           \<lparr> success = False, person = None, res_relationship = None, confidence = None,
             res_color = None, message = ''No faces detected in the image'',
             error = Some ''No faces found'' \<rparr>"
proof -
  obtain s1 where i: "initialize e s = (None, s1)"
    using assms(1) by (cases "initialize e s") simp
  obtain s2 where d: "detectFaces e s1 (buffer_from e img) = ([], s2)"
    using assms(3) detectFaces_after_init[OF i, of "buffer_from e img"]
    by (cases "detectFaces e s (buffer_from e img)") simp
  show ?thesis
    using assms(2) by (simp add: recognizeFace_def initialize_guard i d)
qed

theorem no_faces_detected_witness:
  "fst (recognizeFace (example_env []) (example_state []) ''aGVsbG8='' None None) =
           \<lparr> success = False, person = None, res_relationship = None, confidence = None,
             res_color = None, message = ''No faces detected in the image'',
             error = Some ''No faces found'' \<rparr>"
proof -
  have 1: "fst (initialize (example_env []) (example_state [])) = None"
    by (simp add: initialize_def example_env_def example_state_def response_ok_def)
  have 2: "trim ''aGVsbG8='' \<noteq> []" by (simp add: trim_def isWhiteSpace_def)
  have 3: "fst (detectFaces (example_env []) (example_state [])
                (buffer_from (example_env []) ''aGVsbG8='')) = []"
    by (simp add: example_env_store example_detect)
  from no_faces_detected[OF 1 2 3] show ?thesis .
qed

text \<open>
  C4, as stated, fails: the \<^verbatim>\<open>WHERE\<close> clause of \<^verbatim>\<open>match_faces\<close> compares with
  \<^verbatim>\<open>>\<close>. A record whose similarity to the descriptor is exactly 0.7 is not selected,
  and \<^verbatim>\<open>identifyFace\<close> returns \<^verbatim>\<open>null\<close>.
\<close>

theorem threshold_counterexample:
  "row_similarity (vector_distance (example_env [])) (pad [1, 0, 0, 0])
       (example_row 3 ''Ana'' ''Daughter'' [7, 1, 1, 7]) = Some (Finite (7 / 10))
   \<and> match_faces (vector_distance (example_env [])) [example_row 3 ''Ana'' ''Daughter'' [7, 1, 1, 7]]
       (pad [1, 0, 0, 0]) (7 / 10) 1 = Inr []
   \<and> fst (identifyFace (example_env []) (example_state [example_row 3 ''Ana'' ''Daughter'' [7, 1, 1, 7]])
            (pad [1, 0, 0, 0])) = None"
proof -
  have mf: "match_faces cosine_distance [example_row 3 ''Ana'' ''Daughter'' [7, 1, 1, 7]]
       (pad [1, 0, 0, 0]) (7 / 10) 1 = Inr []"
    by (simp add: match_faces_def above_threshold_def similarity_unit_7117 float8_gt_def length_pad
        example_row_embedding)
  have "fst (identifyFace (example_env []) (example_state [example_row 3 ''Ana'' ''Daughter'' [7, 1, 1, 7]])
            (pad [1, 0, 0, 0])) = None"
    by (simp add: identifyFace_def mf example_state_def example_env_store Let_def del: One_nat_def)
  with mf show ?thesis by (simp add: example_env_store similarity_unit_7117)
qed

text \<open>
  C4, amended. When the store answers the query (a descriptor of 512 dimensions, the
  stored embeddings of 512 dimensions), \<^verbatim>\<open>identifyFace\<close> finds a record exactly when
  for some stored record the similarity the query computes, one minus the distance the
  operator \<^verbatim>\<open><=>\<close> yields, is a number strictly greater than 0.7 or is NaN, which
  PostgreSQL orders above every number. A computed similarity of exactly 0.7 is not a
  match.
\<close>

theorem threshold_is_strict:
  assumes "\<not> rpc_fails e" and "length q = 512" and "embeddings_512 (faces s)"
  shows "(fst (identifyFace e s q) \<noteq> None) =
           (\<exists>row\<in>set (faces s).
              row_similarity (vector_distance e) q row = Some NaN
              \<or> (\<exists>x. row_similarity (vector_distance e) q row = Some (Finite x) \<and> 7 / 10 < x))"
proof -
  have "above_threshold (vector_distance e) q (7 / 10) row =
          (row_similarity (vector_distance e) q row = Some NaN
           \<or> (\<exists>x. row_similarity (vector_distance e) q row = Some (Finite x) \<and> 7 / 10 < x))" for row
  proof (cases "row_similarity (vector_distance e) q row")
    case None
    then show ?thesis by (simp add: above_threshold_def)
  next
    case (Some v)
    then show ?thesis by (cases v) (simp_all add: above_threshold_def float8_gt_Finite)
  qed
  with identifyFace_Some_iff[OF assms] show ?thesis by simp
qed

theorem threshold_is_strict_witness:
  "fst (identifyFace (example_env []) (example_state [example_row 3 ''Ana'' ''Daughter'' [4, 3]])
            (pad [1, 0])) \<noteq> None
   \<and> fst (identifyFace (example_env []) (example_state [example_row 3 ''Ana'' ''Daughter'' [0, 0]])
            (pad [1, 0])) \<noteq> None"
proof -
  let ?s = "example_state [example_row 3 ''Ana'' ''Daughter'' [4, 3]]"
  let ?z = "example_state [example_row 3 ''Ana'' ''Daughter'' [0, 0]]"
  have 1: "\<not> rpc_fails (example_env [])" by (simp add: example_env_store)
  have 2: "length (pad [1, 0]) = 512" by (simp add: length_pad)
  have 3: "embeddings_512 (faces ?s)" "embeddings_512 (faces ?z)"
    by (simp_all add: embeddings_512_def example_state_def example_row_embedding length_pad)
  have 4: "\<exists>row\<in>set (faces ?s).
      row_similarity (vector_distance (example_env [])) (pad [1, 0]) row = Some NaN
      \<or> (\<exists>x. row_similarity (vector_distance (example_env [])) (pad [1, 0]) row = Some (Finite x) \<and> 7 / 10 < x)"
    by (intro bexI[where x = "example_row 3 ''Ana'' ''Daughter'' [4, 3]"] disjI2 exI[where x = "4 / 5"])
      (simp_all add: example_state_def example_env_store similarity_unit_4_3)
  have 5: "\<exists>row\<in>set (faces ?z).
      row_similarity (vector_distance (example_env [])) (pad [1, 0]) row = Some NaN
      \<or> (\<exists>x. row_similarity (vector_distance (example_env [])) (pad [1, 0]) row = Some (Finite x) \<and> 7 / 10 < x)"
    by (simp add: example_state_def example_env_store similarity_zero_row)
  from threshold_is_strict[OF 1 2 3(1)] threshold_is_strict[OF 1 2 3(2)] 4 5 show ?thesis by simp
qed



text \<open>
  C6, as stated, fails: \<^verbatim>\<open>identifyFace\<close> turns an error of the store into
  \<^verbatim>\<open>null\<close>, and \<^verbatim>\<open>addFace\<close> does the same. With the store failing every call, a
  face whose record is in the table gets the ordinary unmatched result, with no
  \<^verbatim>\<open>error\<close> field: the very result a working store without any record gives.
\<close>

theorem store_error_counterexample:
  "fst (recognizeFace ((example_env [[1, 0]])\<lparr>rpc_fails := True, insert_fails := True\<rparr>)
          (example_state [example_row 3 ''Ana'' ''Daughter'' [1, 0]]) ''aGVsbG8='' None None) =
     \<lparr> success = False, person = Some ''Unknown'', res_relationship = Some ''Unknown'',
       confidence = Some (9 / 10), res_color = None,
       message = ''Face detected but not recognized. Provide name and relationship to add new person.'',
       error = None \<rparr>
   \<and> fst (recognizeFace ((example_env [[1, 0]])\<lparr>rpc_fails := True, insert_fails := True\<rparr>)
          (example_state [example_row 3 ''Ana'' ''Daughter'' [1, 0]]) ''aGVsbG8='' None None) =
     fst (recognizeFace (example_env [[1, 0]]) (example_state []) ''aGVsbG8='' None None)"
proof -
  have a: "fst (recognizeFace ((example_env [[1, 0]])\<lparr>rpc_fails := True, insert_fails := True\<rparr>)
          (example_state [example_row 3 ''Ana'' ''Daughter'' [1, 0]]) ''aGVsbG8='' None None) =
     \<lparr> success = False, person = Some ''Unknown'', res_relationship = Some ''Unknown'',
       confidence = Some (9 / 10), res_color = None,
       message = ''Face detected but not recognized. Provide name and relationship to add new person.'',
       error = None \<rparr>"
    by (simp add: recognizeFace_detected[OF image_not_blank] example_env_store example_detect_store
        identifyFace_def Let_def truthy_def to_detection_def example_face_def)
  have b: "fst (recognizeFace (example_env [[1, 0]]) (example_state []) ''aGVsbG8='' None None) =
     \<lparr> success = False, person = Some ''Unknown'', res_relationship = Some ''Unknown'',
       confidence = Some (9 / 10), res_color = None,
       message = ''Face detected but not recognized. Provide name and relationship to add new person.'',
       error = None \<rparr>"
    by (simp add: recognizeFace_detected[OF image_not_blank] example_detect identifyFace_def Let_def
        match_faces_def length_pad
        truthy_def to_detection_def example_face_def example_env_store)
  from a b show ?thesis by simp
qed

text \<open>
  C6, amended. When the query of the store fails, and the insert fails too if name and
  relationship are given, \<^verbatim>\<open>recognizeFace\<close> returns the ordinary unmatched result
  (\<^verbatim>\<open>success: false\<close>, person \<^verbatim>\<open>Unknown\<close>, the detector's confidence, no
  \<^verbatim>\<open>error\<close> field) and the table is what it was; no error of the store reaches the
  caller.
\<close>

theorem store_error_is_unmatched:
  assumes "trim img \<noteq> []"
    and "detectFaces e s (buffer_from e img) = (f # fs, s2)"
    and "rpc_fails e"
    and "insert_fails e \<or> \<not> (truthy n \<and> truthy r)"
  shows "fst (recognizeFace e s img n r) =
           \<lparr> success = False, person = Some ''Unknown'', res_relationship = Some ''Unknown'',
             confidence = Some (det_confidence f), res_color = None,
             message = ''Face detected but not recognized. Provide name and relationship to add new person.'',
             error = None \<rparr>
         \<and> faces (snd (recognizeFace e s img n r)) = faces s"
proof -
  from assms(2) have fs2: "faces s2 = faces s" by (rule detectFaces_facesD)
  obtain x s3 where i: "identifyFace e s2 (embedding f) = (x, s3)"
    by (cases "identifyFace e s2 (embedding f)")
  from identifyFace_fails[OF assms(3), of s2 "embedding f"] i have x: "x = None" by simp
  from i have fs3: "faces s3 = faces s2" by (rule identifyFace_facesD)
  let ?d = "\<lparr> new_name = the n, new_relationship = the r,
                new_color = getRandomColor (math_random e),
                new_face_embedding = Some (embedding f),
                new_image_url = None, new_user_id = None \<rparr>"
  obtain y s4 where a: "addFace e s3 ?d = (y, s4)" by (cases "addFace e s3 ?d")
  show ?thesis
  proof (cases "truthy n \<and> truthy r")
    case True
    with assms(4) have "insert_fails e" by simp
    from addFace_fails[OF this, of s3 ?d] a have y: "y = None" by simp
    with a have "faces s4 = faces s3" using addFace_None_faces[of e s3 ?d] by simp
    with True show ?thesis
      by (simp add: recognizeFace_detected[OF assms(1,2)] i x a y fs3 fs2 Let_def)
  next
    case False
    then have c: "(truthy n \<and> truthy r) = False" by simp
    show ?thesis
      by (simp add: recognizeFace_detected[OF assms(1,2)] i x fs3 fs2 c Let_def)
  qed
qed

theorem store_error_is_unmatched_witness:
  "fst (recognizeFace ((example_env [[1, 0]])\<lparr>rpc_fails := True, insert_fails := True\<rparr>)
          (example_state [example_row 3 ''Ana'' ''Daughter'' [1, 0]]) ''aGVsbG8=''
          (Some ''Ana'') (Some ''Daughter'')) =
     \<lparr> success = False, person = Some ''Unknown'', res_relationship = Some ''Unknown'',
       confidence = Some (9 / 10), res_color = None,
       message = ''Face detected but not recognized. Provide name and relationship to add new person.'',
       error = None \<rparr>
   \<and> faces (snd (recognizeFace ((example_env [[1, 0]])\<lparr>rpc_fails := True, insert_fails := True\<rparr>)
          (example_state [example_row 3 ''Ana'' ''Daughter'' [1, 0]]) ''aGVsbG8=''
          (Some ''Ana'') (Some ''Daughter''))) = [example_row 3 ''Ana'' ''Daughter'' [1, 0]]"
proof -
  let ?e = "(example_env [[1, 0]])\<lparr>rpc_fails := True, insert_fails := True\<rparr>"
  let ?s = "example_state [example_row 3 ''Ana'' ''Daughter'' [1, 0]]"
  have 2: "detectFaces ?e ?s (buffer_from ?e ''aGVsbG8='') =
     (to_detection (example_face [1, 0]) # [],
      \<lparr> modelsLoaded = True, faces = [example_row 3 ''Ana'' ''Daughter'' [1, 0]],
        calls = [Health, Detect ''aGVsbG8=''] \<rparr>)"
    by (simp add: example_env_store example_detect_store)
  have 3: "rpc_fails ?e" by simp
  have 4: "insert_fails ?e \<or> \<not> (truthy (Some ''Ana'') \<and> truthy (Some ''Daughter''))" by simp
  from store_error_is_unmatched[OF image_not_blank 2 3 4]
  show ?thesis by (simp add: to_detection_def example_face_def example_state_def)
qed

text \<open>
  C7, as stated, fails: the second call creates a record only if the store accepts the
  insert. A first call creates the record of Ana; the second call, with the same name
  and relationship and a descriptor at similarity 0 to that record, meets a store whose
  insert fails: the table keeps its one row and the result is not a success.
\<close>

theorem no_name_deduplication_counterexample:
  "fst (recognizeFace (example_env [[1, 0]]) (example_state []) ''aGVsbG8=''
          (Some ''Ana'') (Some ''Daughter'')) =
     \<lparr> success = True, person = Some ''Ana'', res_relationship = Some ''Daughter'',
       confidence = Some 1, res_color = Some ''#FFB6C1'',
       message = ''Added new person: Ana (Daughter)'', error = None \<rparr>
   \<and> map (row_similarity (vector_distance ((example_env [[0, 1]])\<lparr>insert_fails := True\<rparr>)) (pad [0, 1]))
        (faces (snd (recognizeFace (example_env [[1, 0]]) (example_state []) ''aGVsbG8=''
               (Some ''Ana'') (Some ''Daughter'')))) = [Some (Finite 0)]
   \<and> map name (faces (snd (recognizeFace ((example_env [[0, 1]])\<lparr>insert_fails := True\<rparr>)
       (snd (recognizeFace (example_env [[1, 0]]) (example_state []) ''aGVsbG8=''
               (Some ''Ana'') (Some ''Daughter'')))
       ''aGVsbG8='' (Some ''Ana'') (Some ''Daughter'')))) = [''Ana'']
   \<and> success (fst (recognizeFace ((example_env [[0, 1]])\<lparr>insert_fails := True\<rparr>)
       (snd (recognizeFace (example_env [[1, 0]]) (example_state []) ''aGVsbG8=''
               (Some ''Ana'') (Some ''Daughter'')))
       ''aGVsbG8='' (Some ''Ana'') (Some ''Daughter''))) = False"
proof -
  let ?e2 = "(example_env [[0, 1]])\<lparr>insert_fails := True\<rparr>"
  let ?row1 = "\<lparr> id' = 7, name = ''Ana'', relationship = ''Daughter'', color = ''#FFB6C1'',
                   face_embedding = Some (pad [1, 0]), image_url = None, created_at = 1000,
                   updated_at = 1000, user_id = None \<rparr>"
  let ?s1 = "\<lparr> modelsLoaded = True, faces = [?row1],
        calls = [Health, Detect ''aGVsbG8='', MatchFaces (pad [1, 0]) (7 / 10) 1,
                 InsertFace \<lparr> new_name = ''Ana'', new_relationship = ''Daughter'',
                              new_color = Some ''#FFB6C1'', new_face_embedding = Some (pad [1, 0]),
                              new_image_url = None, new_user_id = None \<rparr>] \<rparr>"
  let ?f2 = "to_detection (example_face [0, 1])"
  let ?d = "\<lparr> new_name = ''Ana'', new_relationship = ''Daughter'',
             new_color = getRandomColor (math_random (example_env [[0, 1]])),
             new_face_embedding = Some (embedding ?f2), new_image_url = None, new_user_id = None \<rparr>"
  have emb: "embedding ?f2 = pad [0, 1]" by (simp add: to_detection_def example_face_def)
  have sim: "row_similarity cosine_distance (pad [0, 1]) ?row1 = Some (Finite 0)"
    using stored_similarity[of ?row1 "[1, 0]" "[0, 1]"]
    by (simp add: cosine_distance_def inner_product_Cons inner_product_Nil float8_minus_def)
  have d: "detectFaces ?e2 ?s1 (buffer_from ?e2 ''aGVsbG8='') = (?f2 # [], log_call (Detect ''aGVsbG8='') ?s1)"
    using example_detect_loaded[of ?s1 ?e2 "[[0, 1]]"] by (simp add: example_env_store)
  obtain x s3 where i: "identifyFace ?e2 (log_call (Detect ''aGVsbG8='') ?s1) (embedding ?f2) = (x, s3)"
    by (cases "identifyFace ?e2 (log_call (Detect ''aGVsbG8='') ?s1) (embedding ?f2)")
  have "fst (identifyFace ?e2 (log_call (Detect ''aGVsbG8='') ?s1) (embedding ?f2)) = None"
    by (rule identifyFace_None)
      (simp add: log_call_def emb example_env_store above_threshold_def sim float8_gt_def)
  with i have x: "x = None" by simp
  from identifyFace_facesD[OF i] have fs3: "faces s3 = [?row1]" by (simp add: log_call_def)
  obtain y s4 where a: "addFace ?e2 s3 ?d = (y, s4)" by (cases "addFace ?e2 s3 ?d")
  have f: "insert_fails ?e2" by simp
  from addFace_fails[OF f, of s3 ?d] a have y: "y = None" by simp
  with a addFace_None_faces[of ?e2 s3 ?d] fs3 have fs4: "faces s4 = [?row1]" by simp
  have r2: "recognizeFace ?e2 ?s1 ''aGVsbG8='' (Some ''Ana'') (Some ''Daughter'') =
      (\<lparr> success = False, person = Some ''Unknown'', res_relationship = Some ''Unknown'',
         confidence = Some (det_confidence ?f2), res_color = None,
         message = ''Face detected but not recognized. Provide name and relationship to add new person.'',
         error = None \<rparr>, s4)"
    by (simp add: recognizeFace_detected[OF image_not_blank d] i x a y truthy_def Let_def
        del: One_nat_def)
  show ?thesis
    by (simp add: example_create_call r2 fs4 sim example_env_store del: One_nat_def)
qed

text \<open>
  C7, amended. A first call with name N and relationship R has created a record (its
  result is the success result with confidence 1). A second call with the same N and R,
  whose first face's descriptor is below the threshold against every stored record, the
  new one included (each similarity is a number below 0.7, or the record has no
  embedding), and whose insert the store accepts (it answers, the descriptor has 512
  dimensions, the uuid is fresh), appends a second row: it has another id and the same
  name and relationship as the first. The constraint \<^verbatim>\<open>unique_name_per_user\<close> does not
  stand in the way, the rows having no user id.
\<close>

theorem no_name_deduplication:
  assumes "recognizeFace e1 s img1 (Some N) (Some R) = (res1, s1)"
    and "success res1" and "confidence res1 = Some 1"
    and "trim img2 \<noteq> []" and "detectFaces e2 s1 (buffer_from e2 img2) = (f2 # fs2, t2)"
    and "\<forall>row\<in>set (faces s1).
           case row_similarity (vector_distance e2) (embedding f2) row of
             None \<Rightarrow> True | Some NaN \<Rightarrow> False | Some (Finite x) \<Rightarrow> x < 7 / 10"
    and "\<not> insert_fails e2" and "length (embedding f2) = 512" and "uuid e2 \<notin> set (map id' (faces s1))"
  shows "\<exists>row1 row2.
           faces s1 = faces s @ [row1]
         \<and> faces (snd (recognizeFace e2 s1 img2 (Some N) (Some R))) = faces s @ [row1, row2]
         \<and> id' row2 \<noteq> id' row1
         \<and> name row2 = name row1 \<and> relationship row2 = relationship row1
         \<and> person res1 = Some (name row1) \<and> res_relationship res1 = Some (relationship row1)
         \<and> face_embedding row2 = Some (embedding f2)
         \<and> success (fst (recognizeFace e2 s1 img2 (Some N) (Some R)))
         \<and> confidence (fst (recognizeFace e2 s1 img2 (Some N) (Some R))) = Some 1
         \<and> person (fst (recognizeFace e2 s1 img2 (Some N) (Some R))) = Some (name row2)"
proof -
  from recognizeFace_created[OF assms(1-3)] obtain row1 where
    tr: "truthy (Some N)" "truthy (Some R)"
    and fs1: "faces s1 = faces s @ [row1]"
    and vn: "varchar 255 N = Inr (name row1)" and vr: "varchar 255 R = Inr (relationship row1)"
    and p1: "person res1 = Some (name row1)" "res_relationship res1 = Some (relationship row1)"
    by auto
  from assms(5) have ft2: "faces t2 = faces s1" by (rule detectFaces_facesD)
  obtain x s3 where i: "identifyFace e2 t2 (embedding f2) = (x, s3)"
    by (cases "identifyFace e2 t2 (embedding f2)")
  from assms(6) ft2
  have "\<forall>row\<in>set (faces t2). \<not> above_threshold (vector_distance e2) (embedding f2) (7 / 10) row"
    by (auto dest: below_not_above)
  from identifyFace_None[OF this] i have x: "x = None" by simp
  from i have fs3: "faces s3 = faces s1" using identifyFace_facesD[OF i] ft2 by simp
  from assms(9) fs3 have fresh: "uuid e2 \<notin> set (map id' (faces s3))" by simp
  let ?row2 = "\<lparr> id' = uuid e2, name = name row1, relationship = relationship row1,
                 color = (case getRandomColor (math_random e2) of None \<Rightarrow> ''blue'' | Some c \<Rightarrow> c),
                 face_embedding = Some (embedding f2), image_url = None, created_at = now e2,
                 updated_at = now e2, user_id = None \<rparr>"
  from addFace_accepts[OF assms(7) vn vr assms(8) fresh, of "math_random e2"]
  obtain s4 where a: "addFace e2 s3
           \<lparr> new_name = N, new_relationship = R, new_color = getRandomColor (math_random e2),
             new_face_embedding = Some (embedding f2), new_image_url = None, new_user_id = None \<rparr>
         = (Some ?row2, s4)"
    and fs4: "faces s4 = faces s3 @ [?row2]"
    by auto
  from fs1 assms(9) have distinct: "uuid e2 \<noteq> id' row1" by auto
  have res2: "recognizeFace e2 s1 img2 (Some N) (Some R) =
      (\<lparr> success = True, person = Some (name row1),
         res_relationship = Some (relationship row1), confidence = Some 1,
         res_color = Some (case getRandomColor (math_random e2) of None \<Rightarrow> ''blue'' | Some c \<Rightarrow> c),
         message = ''Added new person: '' @ name row1 @ '' ('' @ relationship row1 @ '')'',
         error = None \<rparr>, s4)"
    using tr by (simp add: recognizeFace_detected[OF assms(4,5)] i x a Let_def)
  from fs4 fs3 fs1 have "faces s4 = faces s @ [row1, ?row2]" by simp
  with res2 fs1 p1 distinct show ?thesis
    by (intro exI[of _ row1] exI[of _ ?row2]) simp
qed

theorem no_name_deduplication_witness:
  "map name (faces (snd (recognizeFace ((example_env [[0, 1]])\<lparr>uuid := 8\<rparr>)
       (snd (recognizeFace (example_env [[1, 0]]) (example_state []) ''aGVsbG8=''
               (Some ''Ana'') (Some ''Daughter'')))
       ''aGVsbG8='' (Some ''Ana'') (Some ''Daughter'')))) = [''Ana'', ''Ana'']
   \<and> distinct (map id' (faces (snd (recognizeFace ((example_env [[0, 1]])\<lparr>uuid := 8\<rparr>)
       (snd (recognizeFace (example_env [[1, 0]]) (example_state []) ''aGVsbG8=''
               (Some ''Ana'') (Some ''Daughter'')))
       ''aGVsbG8='' (Some ''Ana'') (Some ''Daughter'')))))
   \<and> success (fst (recognizeFace ((example_env [[0, 1]])\<lparr>uuid := 8\<rparr>)
       (snd (recognizeFace (example_env [[1, 0]]) (example_state []) ''aGVsbG8=''
               (Some ''Ana'') (Some ''Daughter'')))
       ''aGVsbG8='' (Some ''Ana'') (Some ''Daughter'')))"
proof -
  let ?e1 = "example_env [[1, 0]]"
  let ?e2 = "(example_env [[0, 1]])\<lparr>uuid := 8\<rparr>"
  let ?res1 = "\<lparr> success = True, person = Some ''Ana'', res_relationship = Some ''Daughter'',
        confidence = Some 1, res_color = Some ''#FFB6C1'',
        message = ''Added new person: Ana (Daughter)'', error = None \<rparr>"
  let ?row1 = "\<lparr> id' = 7, name = ''Ana'', relationship = ''Daughter'', color = ''#FFB6C1'',
                   face_embedding = Some (pad [1, 0]), image_url = None, created_at = 1000,
                   updated_at = 1000, user_id = None \<rparr>"
  let ?s1 = "\<lparr> modelsLoaded = True, faces = [?row1],
        calls = [Health, Detect ''aGVsbG8='', MatchFaces (pad [1, 0]) (7 / 10) 1,
                 InsertFace \<lparr> new_name = ''Ana'', new_relationship = ''Daughter'',
                              new_color = Some ''#FFB6C1'', new_face_embedding = Some (pad [1, 0]),
                              new_image_url = None, new_user_id = None \<rparr>] \<rparr>"
  let ?f2 = "to_detection (example_face [0, 1])"
  have emb: "embedding ?f2 = pad [0, 1]" by (simp add: to_detection_def example_face_def)
  have 1: "recognizeFace ?e1 (example_state []) ''aGVsbG8='' (Some ''Ana'') (Some ''Daughter'') = (?res1, ?s1)"
    by (rule example_create_call)
  have 2: "success ?res1" "confidence ?res1 = Some 1" by simp_all
  have 5: "detectFaces ?e2 ?s1 (buffer_from ?e2 ''aGVsbG8='') = (?f2 # [], log_call (Detect ''aGVsbG8='') ?s1)"
    using example_detect_loaded[of ?s1 ?e2 "[[0, 1]]"] by (simp add: example_env_store)
  have sim: "row_similarity cosine_distance (pad [0, 1]) ?row1 = Some (Finite 0)"
    using stored_similarity[of ?row1 "[1, 0]" "[0, 1]"]
    by (simp add: cosine_distance_def inner_product_Cons inner_product_Nil float8_minus_def)
  have 6: "\<forall>row\<in>set (faces ?s1).
      case row_similarity (vector_distance ?e2) (embedding ?f2) row of
        None \<Rightarrow> True | Some NaN \<Rightarrow> False | Some (Finite x) \<Rightarrow> x < 7 / 10"
    by (simp add: emb sim example_env_store)
  have 7: "\<not> insert_fails ?e2" by (simp add: example_env_store)
  have 8: "length (embedding ?f2) = 512" by (simp add: emb length_pad)
  have 9: "uuid ?e2 \<notin> set (map id' (faces ?s1))" by simp
  from no_name_deduplication[OF 1 2 image_not_blank 5 6 7 8 9]
  obtain row1 row2 where
    a: "faces ?s1 = faces (example_state []) @ [row1]"
    and b: "faces (snd (recognizeFace ?e2 ?s1 ''aGVsbG8='' (Some ''Ana'') (Some ''Daughter''))) =
              faces (example_state []) @ [row1, row2]"
    and c: "id' row2 \<noteq> id' row1" "name row2 = name row1"
    and d: "person ?res1 = Some (name row1)"
    and e: "success (fst (recognizeFace ?e2 ?s1 ''aGVsbG8='' (Some ''Ana'') (Some ''Daughter'')))"
    by blast
  from d have nm: "name row1 = ''Ana''" by simp
  have s1: "snd (recognizeFace ?e1 (example_state []) ''aGVsbG8='' (Some ''Ana'') (Some ''Daughter'')) = ?s1"
    by (simp only: 1 snd_conv)
  from b have "faces (snd (recognizeFace ?e2 ?s1 ''aGVsbG8='' (Some ''Ana'') (Some ''Daughter''))) = [row1, row2]"
    by (simp only: example_state_faces append_Nil)
  with c e nm show ?thesis
    unfolding s1 by auto
qed

text \<open>
  C8, as stated, fails: the second call creates a duplicate when its query of the store
  fails and name and relationship are supplied. The table holds the record of Ana, at
  similarity 1 to the descriptor. The first call finds it. In the second call, with the
  same image, name and relationship, \<^verbatim>\<open>match_faces\<close> returns an error:
  \<^verbatim>\<open>identifyFace\<close> yields \<^verbatim>\<open>null\<close>, \<^verbatim>\<open>addFace\<close> inserts a second record of Ana
  with the same descriptor, and the result is that of a creation.
\<close>

theorem resolve_idempotent_counterexample:
  "fst (recognizeFace (example_env [[1, 0]]) (example_state [example_row 3 ''Ana'' ''Daughter'' [1, 0]])
          ''aGVsbG8='' (Some ''Ana'') (Some ''Daughter'')) =
     \<lparr> success = True, person = Some ''Ana'', res_relationship = Some ''Daughter'',
       confidence = Some (8 / 10), res_color = Some ''#4ECDC4'',
       message = ''Found existing person: Ana (Daughter)'', error = None \<rparr>
   \<and> faces (snd (recognizeFace (example_env [[1, 0]]) (example_state [example_row 3 ''Ana'' ''Daughter'' [1, 0]])
          ''aGVsbG8='' (Some ''Ana'') (Some ''Daughter''))) = [example_row 3 ''Ana'' ''Daughter'' [1, 0]]
   \<and> faces (snd (recognizeFace ((example_env [[1, 0]])\<lparr>rpc_fails := True\<rparr>)
       (snd (recognizeFace (example_env [[1, 0]]) (example_state [example_row 3 ''Ana'' ''Daughter'' [1, 0]])
          ''aGVsbG8='' (Some ''Ana'') (Some ''Daughter'')))
       ''aGVsbG8='' (Some ''Ana'') (Some ''Daughter''))) =
       [example_row 3 ''Ana'' ''Daughter'' [1, 0],
        \<lparr> id' = 7, name = ''Ana'', relationship = ''Daughter'', color = ''#FFB6C1'',
          face_embedding = Some (pad [1, 0]), image_url = None, created_at = 1000,
          updated_at = 1000, user_id = None \<rparr>]
   \<and> fst (recognizeFace ((example_env [[1, 0]])\<lparr>rpc_fails := True\<rparr>)
       (snd (recognizeFace (example_env [[1, 0]]) (example_state [example_row 3 ''Ana'' ''Daughter'' [1, 0]])
          ''aGVsbG8='' (Some ''Ana'') (Some ''Daughter'')))
       ''aGVsbG8='' (Some ''Ana'') (Some ''Daughter'')) =
     \<lparr> success = True, person = Some ''Ana'', res_relationship = Some ''Daughter'',
       confidence = Some 1, res_color = Some ''#FFB6C1'',
       message = ''Added new person: Ana (Daughter)'', error = None \<rparr>"
proof -
  let ?e1 = "example_env [[1, 0]]"
  let ?e2 = "(example_env [[1, 0]])\<lparr>rpc_fails := True\<rparr>"
  let ?row = "example_row 3 ''Ana'' ''Daughter'' [1, 0]"
  let ?s1 = "\<lparr> modelsLoaded = True, faces = [?row],
               calls = [Health, Detect ''aGVsbG8='', MatchFaces (pad [1, 0]) (7 / 10) 1] \<rparr>"
  let ?f = "to_detection (example_face [1, 0])"
  let ?d = "\<lparr> new_name = ''Ana'', new_relationship = ''Daughter'',
             new_color = getRandomColor (1 / 2),
             new_face_embedding = Some (pad [1, 0]), new_image_url = None, new_user_id = None \<rparr>"
  let ?new = "\<lparr> id' = 7, name = ''Ana'', relationship = ''Daughter'', color = ''#FFB6C1'',
          face_embedding = Some (pad [1, 0]), image_url = None, created_at = 1000,
          updated_at = 1000, user_id = None \<rparr>"
  have emb: "embedding ?f = pad [1, 0]" by (simp add: to_detection_def example_face_def)
  have 1: "recognizeFace ?e1 (example_state [?row]) ''aGVsbG8='' (Some ''Ana'') (Some ''Daughter'') =
     (\<lparr> success = True, person = Some ''Ana'', res_relationship = Some ''Daughter'',
        confidence = Some (8 / 10), res_color = Some ''#4ECDC4'',
        message = ''Found existing person: Ana (Daughter)'', error = None \<rparr>, ?s1)"
    by (simp add: example_match_call)
  have d: "detectFaces ?e2 ?s1 (buffer_from ?e2 ''aGVsbG8='') = (?f # [], log_call (Detect ''aGVsbG8='') ?s1)"
    using example_detect_loaded[of ?s1 ?e2 "[[1, 0]]"] by (simp add: example_env_store)
  obtain x s3 where i: "identifyFace ?e2 (log_call (Detect ''aGVsbG8='') ?s1) (pad [1, 0]) = (x, s3)"
    by (cases "identifyFace ?e2 (log_call (Detect ''aGVsbG8='') ?s1) (pad [1, 0])")
  have "rpc_fails ?e2" by simp
  from identifyFace_fails[OF this, of "log_call (Detect ''aGVsbG8='') ?s1" "pad [1, 0]"] i
  have x: "x = None" by simp
  from identifyFace_facesD[OF i] have fs3: "faces s3 = [?row]" by (simp add: log_call_def)
  have "\<exists>s'. addFace ?e2 s3 ?d
         = (Some \<lparr> id' = uuid ?e2, name = ''Ana'', relationship = ''Daughter'',
                 color = (case getRandomColor (1 / 2) of None \<Rightarrow> ''blue'' | Some c \<Rightarrow> c),
                 face_embedding = Some (pad [1, 0]), image_url = None, created_at = now ?e2,
                 updated_at = now ?e2, user_id = None \<rparr>, s')
         \<and> faces s' = faces s3 @ [\<lparr> id' = uuid ?e2, name = ''Ana'', relationship = ''Daughter'',
                 color = (case getRandomColor (1 / 2) of None \<Rightarrow> ''blue'' | Some c \<Rightarrow> c),
                 face_embedding = Some (pad [1, 0]), image_url = None, created_at = now ?e2,
                 updated_at = now ?e2, user_id = None \<rparr>]"
    by (rule addFace_accepts)
      (simp_all add: example_env_store varchar_short length_pad fs3 example_row_fields)
  then obtain s4 where a: "addFace ?e2 s3 ?d = (Some ?new, s4)" and fs4: "faces s4 = [?row, ?new]"
    by (auto simp: example_env_store random_half_color fs3)
  have 2: "recognizeFace ?e2 ?s1 ''aGVsbG8='' (Some ''Ana'') (Some ''Daughter'') =
     (\<lparr> success = True, person = Some ''Ana'', res_relationship = Some ''Daughter'',
       confidence = Some 1, res_color = Some ''#FFB6C1'',
       message = ''Added new person: Ana (Daughter)'', error = None \<rparr>, s4)"
    by (simp add: recognizeFace_detected[OF image_not_blank d] emb i x a truthy_def example_env_store
        Let_def del: One_nat_def)
  show ?thesis
    by (simp add: 1 2 fs4 del: One_nat_def)
qed

text \<open>
  C8, amended. A descriptor that matches a stored record (the query of the store finds
  a record for it), resolved twice, the store answering the second query as well, with
  the same distance operator: neither call changes the table, the second call returns
  the result of the first, and that result carries the matched record's name,
  relationship and color.
\<close>

theorem resolve_idempotent:
  assumes "trim img1 \<noteq> []" and "detectFaces e1 s (buffer_from e1 img1) = (f1 # fs1, t1)"
    and "fst (identifyFace e1 s (embedding f1)) = Some m"
    and "recognizeFace e1 s img1 n1 r1 = (res1, s1)"
    and "trim img2 \<noteq> []" and "detectFaces e2 s1 (buffer_from e2 img2) = (f2 # fs2, t2)"
    and "embedding f2 = embedding f1" and "\<not> rpc_fails e2"
    and "vector_distance e2 = vector_distance e1"
  shows "faces s1 = faces s
       \<and> faces (snd (recognizeFace e2 s1 img2 n2 r2)) = faces s
       \<and> fst (recognizeFace e2 s1 img2 n2 r2) = res1
       \<and> success res1
       \<and> person res1 = Some (match_name m)
       \<and> res_relationship res1 = Some (match_relationship m)
       \<and> res_color res1 = Some (match_color m)"
proof -
  let ?q = "embedding f1"
  from assms(3) have up: "\<not> rpc_fails e1"
    using identifyFace_fails[of e1 s ?q] by auto
  have ft1: "faces t1 = faces s" using assms(2) by (rule detectFaces_facesD)
  obtain x s3 where i1: "identifyFace e1 t1 ?q = (x, s3)" by (cases "identifyFace e1 t1 ?q")
  from identifyFace_same_store[OF ft1 refl refl, of e1 ?q] assms(3) i1 have x: "x = Some m" by simp
  have fs3: "faces s3 = faces s" using identifyFace_facesD[OF i1] ft1 by simp
  from assms(4) have r1: "res1 = \<lparr> success = True, person = Some (match_name m),
                        res_relationship = Some (match_relationship m),
                        confidence = Some (8 / 10),
                        res_color = Some (match_color m),
                        message = ''Found existing person: '' @ match_name m
                                  @ '' ('' @ match_relationship m @ '')'',
                        error = None \<rparr>" and s1: "s1 = s3"
    by (simp_all add: recognizeFace_detected[OF assms(1,2)] i1 x)
  have ft2: "faces t2 = faces s" using detectFaces_facesD[OF assms(6)] s1 fs3 by simp
  obtain y s5 where i2: "identifyFace e2 t2 (embedding f2) = (y, s5)"
    by (cases "identifyFace e2 t2 (embedding f2)")
  from up assms(8) have "rpc_fails e2 = rpc_fails e1" by simp
  from identifyFace_same_store[OF ft2 this assms(9), of ?q] assms(3,7) i2 have y: "y = Some m" by simp
  have fs5: "faces s5 = faces s" using identifyFace_facesD[OF i2] ft2 by simp
  have "recognizeFace e2 s1 img2 n2 r2 = (res1, s5)"
    by (simp add: recognizeFace_detected[OF assms(5,6)] i2 y r1)
  with fs5 s1 fs3 r1 show ?thesis by simp
qed

theorem resolve_idempotent_witness:
  "faces (snd (recognizeFace (example_env [[1, 0]])
       (snd (recognizeFace (example_env [[1, 0]])
               (example_state [example_row 3 ''Ana'' ''Daughter'' [4, 3]]) ''aGVsbG8='' None None))
       ''aGVsbG8='' None None)) = [example_row 3 ''Ana'' ''Daughter'' [4, 3]]
   \<and> fst (recognizeFace (example_env [[1, 0]])
       (snd (recognizeFace (example_env [[1, 0]])
               (example_state [example_row 3 ''Ana'' ''Daughter'' [4, 3]]) ''aGVsbG8='' None None))
       ''aGVsbG8='' None None) =
     fst (recognizeFace (example_env [[1, 0]])
               (example_state [example_row 3 ''Ana'' ''Daughter'' [4, 3]]) ''aGVsbG8='' None None)
   \<and> person (fst (recognizeFace (example_env [[1, 0]])
               (example_state [example_row 3 ''Ana'' ''Daughter'' [4, 3]]) ''aGVsbG8='' None None))
       = Some ''Ana''"
proof -
  let ?e = "example_env [[1, 0]]"
  let ?rows = "[example_row 3 ''Ana'' ''Daughter'' [4, 3]]"
  let ?s = "example_state ?rows"
  let ?f = "to_detection (example_face [1, 0])"
  let ?t1 = "\<lparr> modelsLoaded = True, faces = ?rows, calls = [Health, Detect ''aGVsbG8=''] \<rparr>"
  let ?m = "to_match cosine_distance (pad [1, 0]) (example_row 3 ''Ana'' ''Daughter'' [4, 3])"
  let ?s1 = "log_call (MatchFaces (pad [1, 0]) (7 / 10) 1) ?t1"
  have emb: "embedding ?f = pad [1, 0]" by (simp add: to_detection_def example_face_def)
  have 2: "detectFaces ?e ?s (buffer_from ?e ''aGVsbG8='') = (?f # [], ?t1)"
    by (simp add: example_env_store example_detect)
  have ok: "\<not> rpc_fails ?e" "length (pad [1, 0]) = 512"
    by (simp_all add: example_env_store length_pad)
  have idf: "fst (identifyFace ?e st (pad [1, 0])) = Some ?m" if "faces st = ?rows" for st
    by (subst identifyFace_first[OF ok])
      (simp_all add: that embeddings_512_def example_row_embedding length_pad above_threshold_def
        example_env_store similarity_unit_4_3 float8_gt_def)
  have 3: "fst (identifyFace ?e ?s (embedding ?f)) = Some ?m"
    by (simp add: emb idf example_state_def)
  have st: "identifyFace ?e ?t1 (pad [1, 0]) = (Some ?m, ?s1)"
    using idf[of ?t1] by (cases "identifyFace ?e ?t1 (pad [1, 0])")
      (auto simp: identifyFace_def Let_def split: if_splits sum.splits list.splits)
  have s1: "snd (recognizeFace ?e ?s ''aGVsbG8='' None None) = ?s1"
    by (simp add: recognizeFace_detected[OF image_not_blank 2] emb st)
  have 4: "recognizeFace ?e ?s ''aGVsbG8='' None None =
             (fst (recognizeFace ?e ?s ''aGVsbG8='' None None), ?s1)"
    unfolding s1[symmetric] by simp
  have 6: "detectFaces ?e ?s1 (buffer_from ?e ''aGVsbG8='') = (?f # [], log_call (Detect ''aGVsbG8='') ?s1)"
    using example_detect_loaded[of ?s1 ?e "[[1, 0]]"] by (simp add: example_env_store log_call_def)
  from resolve_idempotent[OF image_not_blank 2 3 4 image_not_blank 6 refl ok(1) refl, of None None]
  show ?thesis
    unfolding s1 by (simp add: example_state_faces to_match_def example_row_fields)
qed

text \<open>
  C9. When the detector finds one or more faces, \<^verbatim>\<open>recognizeFace\<close> works with the
  first one only. After the detection the invocation makes one query, with the first
  face's embedding, and at most one insert, again with the first face's embedding: no
  other face reaches the store. And whatever faces the detector reports after the first,
  result and final state are the same.
\<close>

theorem first_face_only:
  assumes "trim img \<noteq> []"
    and "detectFaces e s (buffer_from e img) = (f # fs, s2)"
  shows "calls (snd (recognizeFace e s img n r)) =
           calls s2 @ [MatchFaces (embedding f) (7 / 10) 1]
           @ (if fst (identifyFace e s2 (embedding f)) = None \<and> truthy n \<and> truthy r
              then [InsertFace \<lparr> new_name = the n, new_relationship = the r,
                                 new_color = getRandomColor (math_random e),
                                 new_face_embedding = Some (embedding f),
                                 new_image_url = None, new_user_id = None \<rparr>]
              else [])
         \<and> (\<forall>d fs'. fst (detectFaces (e\<lparr>detect := d\<rparr>) s (buffer_from e img)) = f # fs' \<longrightarrow>
               recognizeFace (e\<lparr>detect := d\<rparr>) s img n r = recognizeFace e s img n r)"
proof -
  obtain x s3 where i: "identifyFace e s2 (embedding f) = (x, s3)"
    by (cases "identifyFace e s2 (embedding f)")
  then have c3: "calls s3 = calls s2 @ [MatchFaces (embedding f) (7 / 10) 1]"
    using identifyFace_calls[of e s2 "embedding f"] by simp
  let ?d = "\<lparr> new_name = the n, new_relationship = the r,
                new_color = getRandomColor (math_random e),
                new_face_embedding = Some (embedding f),
                new_image_url = None, new_user_id = None \<rparr>"
  obtain y s4 where a: "addFace e s3 ?d = (y, s4)" by (cases "addFace e s3 ?d")
  then have c4: "calls s4 = calls s3 @ [InsertFace ?d]"
    using addFace_calls[of e s3 ?d] by simp
  have log: "calls (snd (recognizeFace e s img n r)) =
           calls s2 @ [MatchFaces (embedding f) (7 / 10) 1]
           @ (if fst (identifyFace e s2 (embedding f)) = None \<and> truthy n \<and> truthy r
              then [InsertFace ?d] else [])"
    by (cases x; cases y) (simp_all add: recognizeFace_detected[OF assms] i a c3 c4 Let_def)
  have indep: "recognizeFace (e\<lparr>detect := d\<rparr>) s img n r = recognizeFace e s img n r"
    if h: "fst (detectFaces (e\<lparr>detect := d\<rparr>) s (buffer_from e img)) = f # fs'" for d fs'
  proof -
    let ?e' = "e\<lparr>detect := d\<rparr>"
    have b: "buffer_from ?e' img = buffer_from e img" by simp
    have "snd (detectFaces ?e' s (buffer_from e img)) = s2"
      using detectFaces_state_detect_irrelevant[where e=e and d=d and s=s and b="buffer_from e img"]
        assms(2) by simp
    with h have "detectFaces ?e' s (buffer_from e img) = (f # fs', s2)"
      by (cases "detectFaces ?e' s (buffer_from e img)") simp
    then have d': "detectFaces ?e' s (buffer_from ?e' img) = (f # fs', s2)"
      by (simp only: b)
    show ?thesis
      by (cases x; cases y)
        (simp_all add: recognizeFace_detected[OF assms] recognizeFace_detected[OF assms(1) d']
          identifyFace_detect_irrelevant addFace_detect_irrelevant i a Let_def)
  qed
  from log indep show ?thesis by blast
qed

theorem first_face_only_witness:
  "calls (snd (recognizeFace (example_env [[1, 0], [0, 1]]) (example_state []) ''aGVsbG8='' None None)) =
     [Health, Detect ''aGVsbG8='', MatchFaces (pad [1, 0]) (7 / 10) 1]
   \<and> recognizeFace (example_env [[1, 0], [3, 4, 5]]) (example_state []) ''aGVsbG8='' None None
       = recognizeFace (example_env [[1, 0], [0, 1]]) (example_state []) ''aGVsbG8='' None None"
proof -
  let ?e = "example_env [[1, 0], [0, 1]]"
  let ?e' = "example_env [[1, 0], [3, 4, 5]]"
  let ?s2 = "\<lparr> modelsLoaded = True, faces = [], calls = [Health, Detect ''aGVsbG8=''] \<rparr>"
  have 2: "detectFaces ?e (example_state []) (buffer_from ?e ''aGVsbG8='')
     = (to_detection (example_face [1, 0]) # [to_detection (example_face [0, 1])], ?s2)"
    by (simp add: example_env_store example_detect)
  have 3: "?e\<lparr>detect := detect ?e'\<rparr> = ?e'"
    by (simp add: example_env_def)
  have 4: "fst (detectFaces (?e\<lparr>detect := detect ?e'\<rparr>) (example_state []) (buffer_from ?e ''aGVsbG8=''))
      = to_detection (example_face [1, 0]) # [to_detection (example_face [3, 4, 5])]"
    by (simp only: 3 example_env_store example_detect fst_conv list.map)
  have 5: "fst (identifyFace ?e ?s2 (embedding (to_detection (example_face [1, 0])))) = None"
    by (simp add: identifyFace_None)
  note t = first_face_only[OF image_not_blank 2, of None None]
  from t[THEN conjunct1] have log:
    "calls (snd (recognizeFace ?e (example_state []) ''aGVsbG8='' None None)) =
       [Health, Detect ''aGVsbG8='', MatchFaces (pad [1, 0]) (7 / 10) 1]"
    by (simp add: truthy_def to_detection_def example_face_def del: One_nat_def)
  from t[THEN conjunct2, rule_format, OF 4]
  have "recognizeFace ?e' (example_state []) ''aGVsbG8='' None None
       = recognizeFace ?e (example_state []) ''aGVsbG8='' None None"
    by (simp only: 3)
  with log show ?thesis by (rule conjI)
qed

text \<open>
  C10, as stated, fails: \<^verbatim>\<open>recognizeFace\<close> initialises the service before it looks at
  the image data. With the service not yet initialised and its health check failing, the
  empty string gets the result of the failed initialisation.
\<close>

theorem empty_image_counterexample:
  "trim '''' = []
   \<and> fst (recognizeFace ((example_env [[1, 0]])\<lparr>health := FetchFailed ''fetch failed''\<rparr>)
            (example_state []) '''' None None) =
       \<lparr> success = False, person = None, res_relationship = None, confidence = None,
         res_color = None,
         message = ''Cannot connect to Python face recognition service - is it running?'',
         error = Some ''Python face recognition service could not be initialized: fetch failed'' \<rparr>
   \<and> message (fst (recognizeFace ((example_env [[1, 0]])\<lparr>health := FetchFailed ''fetch failed''\<rparr>)
            (example_state []) '''' None None)) \<noteq> ''No image data provided''"
  by (simp add: recognizeFace_def initialize_def example_env_def example_state_def log_call_def
      trim_def)

text \<open>
  C10, amended. When the service is initialised already or its health check succeeds,
  image data that is empty or all white space gets the result
  \<^verbatim>\<open>No image data provided\<close> / \<^verbatim>\<open>Empty image data\<close>; the only external call the
  invocation may make is the health check (no detection, no query, no insert), and
  the table is what it was.
\<close>

theorem empty_image:
  assumes "fst (initialize e s) = None"
    and "\<forall>c\<in>set img. isWhiteSpace c"
  shows "fst (recognizeFace e s img n r) =
           \<lparr> success = False, person = None, res_relationship = None, confidence = None,
             res_color = None, message = ''No image data provided'',
             error = Some ''Empty image data'' \<rparr>
         \<and> calls (snd (recognizeFace e s img n r)) =
             (if modelsLoaded s then calls s else calls s @ [Health])
         \<and> faces (snd (recognizeFace e s img n r)) = faces s"
proof -
  obtain s1 where i: "initialize e s = (None, s1)"
    using assms(1) by (cases "initialize e s") simp
  from assms(2) have t: "trim img = []" by (simp add: trim_empty_iff)
  have r: "recognizeFace e s img n r =
      (\<lparr> success = False, person = None, res_relationship = None, confidence = None,
             res_color = None, message = ''No image data provided'',
             error = Some ''Empty image data'' \<rparr>, s1)"
    by (simp add: recognizeFace_def initialize_guard i t)
  from i have "calls s1 = (if modelsLoaded s then calls s else calls s @ [Health])"
    using initialize_calls[of e s] by simp
  moreover from i have "faces s1 = faces s"
    using initialize_faces[of e s] by simp
  ultimately show ?thesis by (simp add: r)
qed

theorem empty_image_witness:
  "fst (recognizeFace (example_env [[1, 0]]) (example_state []) '' '' (Some ''Ana'') (Some ''Daughter'')) =
           \<lparr> success = False, person = None, res_relationship = None, confidence = None,
             res_color = None, message = ''No image data provided'',
             error = Some ''Empty image data'' \<rparr>
   \<and> calls (snd (recognizeFace (example_env [[1, 0]]) (example_state []) '' '' (Some ''Ana'') (Some ''Daughter''))) = [Health]
   \<and> faces (snd (recognizeFace (example_env [[1, 0]]) (example_state []) '' '' (Some ''Ana'') (Some ''Daughter''))) = []"
proof -
  have 1: "fst (initialize (example_env [[1, 0]]) (example_state [])) = None"
    by (simp add: initialize_def example_env_def example_state_def response_ok_def)
  have 2: "\<forall>c\<in>set '' ''. isWhiteSpace c" by (simp add: isWhiteSpace_def)
  from empty_image[OF 1 2] show ?thesis by (simp add: example_state_def)
qed

end
